theory Spec2Isabelle
  imports Complex_Main
begin

section \<open>JavaScript strings and values\<close>

text \<open>
  Strings are lists of 8-bit characters, read as the code points U+0000 to U+00FF
  (Latin-1). On these the case conversion and the whitespace class below are those of
  JavaScript: \<open>toLowerCase\<close> changes \<open>A\<close> to \<open>Z\<close> and the capitals U+00C0 to U+00DE other
  than the multiplication sign U+00D7, each to the character 32 places on; whitespace is
  tab, line feed, vertical tab, form feed, carriage return, space and the no-break space
  U+00A0. Characters beyond U+00FF are outside the model.
\<close>

definition ascii_upper :: string where
  "ascii_upper = ''ABCDEFGHIJKLMNOPQRSTUVWXYZ''"

definition ascii_lower :: string where
  "ascii_lower = ''abcdefghijklmnopqrstuvwxyz''"

definition latin1_upper :: string where
  "latin1_upper =
     [CHR 0xC0, CHR 0xC1, CHR 0xC2, CHR 0xC3, CHR 0xC4, CHR 0xC5, CHR 0xC6, CHR 0xC7,
      CHR 0xC8, CHR 0xC9, CHR 0xCA, CHR 0xCB, CHR 0xCC, CHR 0xCD, CHR 0xCE, CHR 0xCF,
      CHR 0xD0, CHR 0xD1, CHR 0xD2, CHR 0xD3, CHR 0xD4, CHR 0xD5, CHR 0xD6, CHR 0xD8,
      CHR 0xD9, CHR 0xDA, CHR 0xDB, CHR 0xDC, CHR 0xDD, CHR 0xDE]"

definition latin1_lower :: string where
  "latin1_lower =
     [CHR 0xE0, CHR 0xE1, CHR 0xE2, CHR 0xE3, CHR 0xE4, CHR 0xE5, CHR 0xE6, CHR 0xE7,
      CHR 0xE8, CHR 0xE9, CHR 0xEA, CHR 0xEB, CHR 0xEC, CHR 0xED, CHR 0xEE, CHR 0xEF,
      CHR 0xF0, CHR 0xF1, CHR 0xF2, CHR 0xF3, CHR 0xF4, CHR 0xF5, CHR 0xF6, CHR 0xF8,
      CHR 0xF9, CHR 0xFA, CHR 0xFB, CHR 0xFC, CHR 0xFD, CHR 0xFE]"

definition upper_letters :: string where
  "upper_letters = ascii_upper @ latin1_upper"

definition lower_letters :: string where
  "lower_letters = ascii_lower @ latin1_lower"

definition digit_chars :: string where
  "digit_chars = ''0123456789''"

definition toLowerCase_char :: "char \<Rightarrow> char" where
  "toLowerCase_char c =
     (case map_of (zip upper_letters lower_letters) c of Some l \<Rightarrow> l | None \<Rightarrow> c)"

definition toLowerCase :: "string \<Rightarrow> string" where
  "toLowerCase s = map toLowerCase_char s"

text \<open>The class \<open>\s\<close> of a regular expression, which is also what \<open>trim\<close> strips.\<close>

definition is_whitespace :: "char \<Rightarrow> bool" where
  "is_whitespace c =
     (c \<in> set [CHR 0x20, CHR 0x09, CHR 0x0A, CHR 0x0B, CHR 0x0C, CHR 0x0D, CHR 0xA0])"

definition trim :: "string \<Rightarrow> string" where
  "trim s = rev (dropWhile is_whitespace (rev (dropWhile is_whitespace s)))"

text \<open>\<open>s.split(c)\<close> for a one-character separator: never empty, \<open>''''.split(c) = ['''']\<close>.\<close>

fun split_on :: "char \<Rightarrow> string \<Rightarrow> string list" where
  "split_on c [] = [[]]"
| "split_on c (x # xs) =
     (if x = c then [] # split_on c xs
      else (case split_on c xs of [] \<Rightarrow> [[x]] | w # ws \<Rightarrow> (x # w) # ws))"

fun starts_with :: "string \<Rightarrow> string \<Rightarrow> bool" where
  "starts_with s [] = True"
| "starts_with [] (n # ns) = False"
| "starts_with (x # xs) (n # ns) = (x = n \<and> starts_with xs ns)"

text \<open>\<open>hay.includes(needle)\<close>.\<close>

fun str_includes :: "string \<Rightarrow> string \<Rightarrow> bool" where
  "str_includes [] needle = (needle = [])"
| "str_includes (x # xs) needle = (starts_with (x # xs) needle \<or> str_includes xs needle)"

section \<open>Helpers (utils/helpers.js)\<close>

text \<open>\<open>/^[A-Z0-9]{2,6}$/.test(coin)\<close>\<close>

definition is_ticker :: "string \<Rightarrow> bool" where
  "is_ticker s =
     (2 \<le> length s \<and> length s \<le> 6 \<and>
      list_all (\<lambda>c. c \<in> set ascii_upper \<or> c \<in> set digit_chars) s)"

text \<open>
  \<open>normalizeCoinIdentifier(coin)\<close>. The argument is a string or absent (\<open>None\<close>);
  \<open>!coin\<close> holds for the absent and for the empty string.
  \<open>replace(/\s+/g, '')\<close> deletes every whitespace character.
\<close>

definition normalizeCoinIdentifier :: "string option \<Rightarrow> string" where
  "normalizeCoinIdentifier coin =
     (case coin of
        None \<Rightarrow> []
      | Some s \<Rightarrow>
          if s = [] then []
          else if is_ticker s then s
          else filter (\<lambda>c. \<not> is_whitespace c) (toLowerCase s))"

section \<open>Aggregations over a time series (index.js)\<close>

text \<open>
  A time-series point with the three fields the aggregations read. A field that is absent
  is \<open>None\<close>. JavaScript numbers are modelled as reals: rounding, NaN and the infinities
  are outside the model.
\<close>

record point =
  gs :: "real option"
  sv :: "real option"
  sc :: "real option"

text \<open>\<open>x || d\<close> on a numeric field: the default replaces an absent field and a zero.\<close>

definition or_default :: "real option \<Rightarrow> real \<Rightarrow> real" where
  "or_default x d = (case x of None \<Rightarrow> d | Some v \<Rightarrow> if v = 0 then d else v)"

text \<open>The argument \<open>timeSeriesData\<close> may be absent (\<open>!timeSeriesData\<close>).\<close>

definition calculateAverageSentiment :: "point list option \<Rightarrow> real" where
  "calculateAverageSentiment timeSeriesData =
     (case timeSeriesData of
        None \<Rightarrow> 0
      | Some ds \<Rightarrow>
          if length ds = 0 then 0
          else let sentiments = map (\<lambda>d. or_default (gs d) 0) ds;
                   sum = foldl (\<lambda>acc val. acc + val) 0 sentiments
               in sum / real (length sentiments))"

definition calculateTotalSocialVolume :: "point list option \<Rightarrow> real" where
  "calculateTotalSocialVolume timeSeriesData =
     (case timeSeriesData of
        None \<Rightarrow> 0
      | Some ds \<Rightarrow>
          if length ds = 0 then 0
          else foldl (\<lambda>acc d. acc + or_default (sv d) 0) 0 ds)"

definition socialContributors :: "point \<Rightarrow> real" where
  "socialContributors d = or_default (sc d) 1"

definition engagement_of :: "point \<Rightarrow> real" where
  "engagement_of d = (let socialVolume = or_default (sv d) 0 in socialVolume / socialContributors d)"

definition calculateAverageEngagement :: "point list option \<Rightarrow> real" where
  "calculateAverageEngagement timeSeriesData =
     (case timeSeriesData of
        None \<Rightarrow> 0
      | Some ds \<Rightarrow>
          if length ds = 0 then 0
          else let engagements = map engagement_of ds;
                   sum = foldl (\<lambda>acc val. acc + val) 0 engagements
               in sum / real (length engagements))"

section \<open>JSON values\<close>

text \<open>
  The values that travel through the adapter: response bodies, cached entries, query
  parameters. Numbers are integers here (fractions, NaN and the infinities are outside the
  model); an object is the list of its own properties in insertion order.
\<close>

datatype json =
    JUndefined
  | JNull
  | JBool bool
  | JNum int
  | JStr string
  | JArr "json list"
  | JObj "(string \<times> json) list"

type_synonym params = "(string \<times> json) list"

text \<open>What \<open>if (v)\<close>, \<open>!v\<close> and \<open>v || d\<close> test.\<close>

fun truthy :: "json \<Rightarrow> bool" where
  "truthy JUndefined = False"
| "truthy JNull = False"
| "truthy (JBool b) = b"
| "truthy (JNum n) = (n \<noteq> 0)"
| "truthy (JStr s) = (s \<noteq> [])"
| "truthy (JArr xs) = True"
| "truthy (JObj kvs) = True"

text \<open>\<open>obj[name]\<close> on the own properties of an object.\<close>

definition get_prop :: "(string \<times> json) list \<Rightarrow> string \<Rightarrow> json" where
  "get_prop kvs name = (case map_of kvs name of Some v \<Rightarrow> v | None \<Rightarrow> JUndefined)"

function dec_nat :: "nat \<Rightarrow> string" where
  "dec_nat n = (if n < 10 then [digit_chars ! n] else dec_nat (n div 10) @ [digit_chars ! (n mod 10)])"
  by pat_completeness auto
termination
  by (relation "measure (\<lambda>n. n)") auto

text \<open>
  \<open>String(v)\<close>. An array is the comma-separated strings of its elements, with nothing for
  \<open>null\<close> and \<open>undefined\<close>. Integers are printed in decimal (JavaScript switches to the
  exponent notation from \<open>10^21\<close> on).
\<close>

fun js_String :: "json \<Rightarrow> string"
  and js_join :: "json list \<Rightarrow> string" where
  "js_String JUndefined = ''undefined''"
| "js_String JNull = ''null''"
| "js_String (JBool b) = (if b then ''true'' else ''false'')"
| "js_String (JNum n) = (if n < 0 then CHR ''-'' # dec_nat (nat (- n)) else dec_nat (nat n))"
| "js_String (JStr s) = s"
| "js_String (JArr xs) = js_join xs"
| "js_String (JObj kvs) = ''[object Object]''"
| "js_join [] = []"
| "js_join [x] = (if x = JNull \<or> x = JUndefined then [] else js_String x)"
| "js_join (x # y # ys) =
     (if x = JNull \<or> x = JUndefined then [] else js_String x) @ '','' @ js_join (y # ys)"

section \<open>The collaborators: HTTP transport, cache, mock generators\<close>

text \<open>
  A rejected request carries the status of the response, when there was one
  (\<open>error.response.status\<close>), and the rest of the error object, kept as its message.
\<close>

datatype http_error = HttpError (status: "int option") (message: string)

datatype http_result = Resolved int json | Rejected http_error

datatype error = Transport http_error | TypeError

text \<open>
  An entry of the cache: the value stored, and the time it was stored at.
\<close>

record entry =
  entry_value :: json
  entry_stored :: int

text \<open>
  The environment of one adapter. \<open>axios_get E n url authorization params\<close> is the
  outcome of the \<open>n\<close>-th GET the process issues. \<open>JSON_stringify\<close> is the language's
  serialisation of a parameter object. The three generators of \<open>mock/data.js\<close> draw from
  \<open>Math.random\<close>; the payloads they return are the environment's. \<open>cache_ttl\<close> is the
  time-to-live the cache was constructed with, in milliseconds, and
  \<open>cache_evicts E key stored\<close> is the time, if any, at which the cache evicts the entry
  stored under \<open>key\<close> at time \<open>stored\<close>.
\<close>

record env =
  axios_get :: "nat \<Rightarrow> string \<Rightarrow> string \<Rightarrow> params \<Rightarrow> http_result"
  JSON_stringify :: "params \<Rightarrow> string"
  mock_getCoinsList :: "json \<Rightarrow> json"
  mock_getCoinData :: "string \<Rightarrow> json"
  mock_getTopicData :: "string \<Rightarrow> json"
  cache_ttl :: int
  cache_evicts :: "string \<Rightarrow> int \<Rightarrow> int option"

text \<open>
  The mutable state: the fields of \<open>LunarCrushAuth\<close> (\<open>apiTier\<close>, \<open>lastTierCheck\<close>), the
  cache the adapter owns, and the log of the GETs issued so far (url, authorization
  header, query parameters). \<open>apiKey\<close> is the one credential the adapter and its
  \<open>LunarCrushAuth\<close> share.
\<close>

datatype tier = Paid | Free | Invalid | Unknown

record adapter =
  apiKey :: "string option"
  apiTier :: "tier option"
  lastTierCheck :: "int option"
  cache :: "string \<Rightarrow> entry option"
  calls :: "(string \<times> string \<times> params) list"

text \<open>
  Modelled from the spec: the cache of \<open>@intue/core\<close>, whose code is not in the repository.
  \<open>set(key, value)\<close> stores the value; \<open>get(key)\<close> gives the stored value or nothing. The
  lifetime of an entry is bounded by the time-to-live, and the entry persists until it
  expires or the cache evicts it: \<open>get\<close> at time \<open>now\<close> finds an entry only while its age is
  within the time-to-live and its eviction time, if it has one, has not come. One request
  is one instant \<open>now\<close> of this clock.
\<close>

definition entry_live :: "env \<Rightarrow> int \<Rightarrow> string \<Rightarrow> entry \<Rightarrow> bool" where
  "entry_live E now k e =
     (now - entry_stored e \<le> cache_ttl E \<and>
      (case cache_evicts E k (entry_stored e) of None \<Rightarrow> True | Some t \<Rightarrow> now < t))"

definition cache_get :: "env \<Rightarrow> int \<Rightarrow> (string \<Rightarrow> entry option) \<Rightarrow> string \<Rightarrow> json" where
  "cache_get E now c k =
     (case c k of
        Some e \<Rightarrow> if entry_live E now k e then entry_value e else JUndefined
      | None \<Rightarrow> JUndefined)"

definition cache_set :: "int \<Rightarrow> (string \<Rightarrow> entry option) \<Rightarrow> string \<Rightarrow> json \<Rightarrow> (string \<Rightarrow> entry option)" where
  "cache_set now c k v = c(k \<mapsto> \<lparr>entry_value = v, entry_stored = now\<rparr>)"

definition baseUrl :: string where
  "baseUrl = ''https://lunarcrush.com/api4''"

text \<open>\<open>`Bearer ${this.apiKey}`\<close>\<close>

definition authorization :: "adapter \<Rightarrow> string" where
  "authorization st = ''Bearer '' @ (case apiKey st of Some k \<Rightarrow> k | None \<Rightarrow> ''undefined'')"

text \<open>
  One \<open>axios.get(url, {headers, params})\<close>: its outcome is the environment's answer to the
  next GET, and the call is logged.
\<close>

definition http_response :: "env \<Rightarrow> string \<Rightarrow> params \<Rightarrow> adapter \<Rightarrow> http_result" where
  "http_response E url ps st = axios_get E (length (calls st)) url (authorization st) ps"

definition http_logged :: "string \<Rightarrow> params \<Rightarrow> adapter \<Rightarrow> adapter" where
  "http_logged url ps st = st\<lparr>calls := calls st @ [(url, authorization st, ps)]\<rparr>"

definition http_get :: "env \<Rightarrow> string \<Rightarrow> params \<Rightarrow> adapter \<Rightarrow> http_result \<times> adapter" where
  "http_get E url ps st = (http_response E url ps st, http_logged url ps st)"

section \<open>Tier detection (auth.js)\<close>

definition tierCheckInterval :: int where
  "tierCheckInterval = 24 * 60 * 60 * 1000"

definition free_endpoints :: "string list" where
  "free_endpoints =
     [''/public/topic/:topic/v1'', ''/public/coins/list/v1'', ''/public/categories/list/v1'']"

definition probe_url :: string where
  "probe_url = ''https://lunarcrush.com/api4/public/coins/list/v2''"

text \<open>\<open>!this.apiKey\<close> fails for a non-empty string only.\<close>

definition has_key :: "adapter \<Rightarrow> bool" where
  "has_key st = (case apiKey st of Some k \<Rightarrow> k \<noteq> [] | None \<Rightarrow> False)"

text \<open>
  \<open>this.apiTier && this.lastTierCheck && (now - this.lastTierCheck < this.tierCheckInterval)\<close>:
  the memoized tier when the condition holds. A timestamp of 0 is falsy.
\<close>

definition memoized :: "adapter \<Rightarrow> int \<Rightarrow> tier option" where
  "memoized st now =
     (case apiTier st of
        None \<Rightarrow> None
      | Some t \<Rightarrow>
          (case lastTierCheck st of
             None \<Rightarrow> None
           | Some l \<Rightarrow> if l \<noteq> 0 \<and> now - l < tierCheckInterval then Some t else None))"

text \<open>The tier read off the probe's outcome (the \<open>try\<close> and the \<open>catch\<close> of \<open>detectApiTier\<close>).\<close>

definition probe_tier :: "http_result \<Rightarrow> tier" where
  "probe_tier res =
     (case res of
        Resolved s d \<Rightarrow> if s = 200 then Paid else Unknown
      | Rejected err \<Rightarrow>
          (case status err of
             Some s \<Rightarrow> if s = 402 then Free else if s = 401 then Invalid else Unknown
           | None \<Rightarrow> Unknown))"

text \<open>\<open>detectApiTier()\<close>, with \<open>now\<close> the value of \<open>Date.now()\<close>.\<close>

definition detectApiTier :: "env \<Rightarrow> int \<Rightarrow> adapter \<Rightarrow> tier \<times> adapter" where
  "detectApiTier E now st =
     (case memoized st now of
        Some t \<Rightarrow> (t, st)
      | None \<Rightarrow>
          if \<not> has_key st then (Invalid, st\<lparr>apiTier := Some Invalid\<rparr>)
          else (case http_get E probe_url [(''limit'', JNum 1)] st of
                  (res, st1) \<Rightarrow>
                    (probe_tier res,
                     st1\<lparr>apiTier := Some (probe_tier res), lastTierCheck := Some now\<rparr>)))"

text \<open>
  \<open>freeEndpoint.replace(/:[^\/]+/g, '[^\/]+')\<close>, as the compiled pattern: a colon followed
  by at least one character other than a slash becomes the class \<open>[^/]+\<close>, every other
  character stands for itself (the templates hold letters, digits and slashes besides the
  parameters, none of them special in a pattern).
\<close>

datatype token = Lit char | Segment

function replace_params :: "string \<Rightarrow> token list" where
  "replace_params [] = []"
| "replace_params (c # cs) =
     (if c = CHR '':'' \<and> takeWhile (\<lambda>x. x \<noteq> CHR ''/'') cs \<noteq> []
      then Segment # replace_params (dropWhile (\<lambda>x. x \<noteq> CHR ''/'') cs)
      else Lit c # replace_params cs)"
  by pat_completeness auto
termination
  by (relation "measure length") (auto simp: length_dropWhile_le less_Suc_eq_le)

text \<open>\<open>new RegExp(`^${pattern}$`).test(endpoint)\<close>: the whole string matches the tokens.\<close>

fun regex_test :: "token list \<Rightarrow> string \<Rightarrow> bool" where
  "regex_test [] s = (s = [])"
| "regex_test (Lit c # ts) s = (case s of [] \<Rightarrow> False | x # xs \<Rightarrow> x = c \<and> regex_test ts xs)"
| "regex_test (Segment # ts) s =
     list_ex (\<lambda>n. list_all (\<lambda>x. x \<noteq> CHR ''/'') (take n s) \<and> regex_test ts (drop n s))
       [1..<Suc (length s)]"

text \<open>The first step of \<open>canAccessEndpoint\<close>: \<open>if (!this.apiTier) await this.detectApiTier()\<close>.\<close>

definition ensureTier :: "env \<Rightarrow> int \<Rightarrow> adapter \<Rightarrow> adapter" where
  "ensureTier E now st = (if apiTier st = None then snd (detectApiTier E now st) else st)"

definition canAccessEndpoint :: "env \<Rightarrow> int \<Rightarrow> string \<Rightarrow> adapter \<Rightarrow> bool \<times> adapter" where
  "canAccessEndpoint E now endpoint st =
     (let st1 = ensureTier E now st in
      if apiTier st1 = Some Paid then (True, st1)
      else if apiTier st1 = Some Invalid \<or> apiTier st1 = Some Unknown then (False, st1)
      else (list_ex (\<lambda>freeEndpoint. regex_test (replace_params freeEndpoint) endpoint)
              free_endpoints, st1))"

section \<open>The request pipeline (index.js)\<close>

text \<open>\<open>`${endpoint}_${JSON.stringify(params)}`\<close>\<close>

definition cacheKey :: "env \<Rightarrow> string \<Rightarrow> params \<Rightarrow> string" where
  "cacheKey E endpoint ps = endpoint @ ''_'' @ JSON_stringify E ps"

text \<open>\<open>endpoint.split('/').slice(-2)[0]\<close>: the last segment but one, or the only one.\<close>

definition slice_m2_0 :: "string list \<Rightarrow> string" where
  "slice_m2_0 xs =
     (case xs of [] \<Rightarrow> [] | x # _ \<Rightarrow> if 2 \<le> length xs then xs ! (length xs - 2) else x)"

text \<open>\<open>_getMockData(endpoint, params)\<close>: the payload is chosen by the shape of the path.\<close>

definition getMockData :: "env \<Rightarrow> string \<Rightarrow> params \<Rightarrow> json" where
  "getMockData E endpoint ps =
     (if str_includes endpoint ''/coins/list''
      then mock_getCoinsList E
             (if truthy (get_prop ps ''limit'') then get_prop ps ''limit'' else JNum 50)
      else if str_includes endpoint ''/coins/''
      then mock_getCoinData E (slice_m2_0 (split_on CHR ''/'' endpoint))
      else if str_includes endpoint ''/topic/''
      then mock_getTopicData E (slice_m2_0 (split_on CHR ''/'' endpoint))
      else JArr [])"

text \<open>The object \<open>_getFallbackData\<close> returns when no free variant answers.\<close>

definition mock_envelope :: "env \<Rightarrow> string \<Rightarrow> params \<Rightarrow> json" where
  "mock_envelope E endpoint ps =
     JObj [(''data'', getMockData E endpoint ps),
           (''meta'', JObj [(''using_mock_data'', JBool True),
                            (''original_endpoint'', JStr endpoint)])]"

text \<open>
  \<open>_makeRequest(endpoint, params)\<close> and \<open>_getFallbackData(endpoint, params)\<close>. A result is
  \<open>Inr\<close> the value returned or \<open>Inl\<close> the error thrown, with the state the call leaves.
  \<open>now\<close> is the time of the request: what \<open>Date.now()\<close> returns should the tier have to be
  detected, and the instant at which the cache is read and written.
\<close>

function makeRequest :: "env \<Rightarrow> int \<Rightarrow> string \<Rightarrow> params \<Rightarrow> adapter \<Rightarrow> (error + json) \<times> adapter"
  and getFallbackData :: "env \<Rightarrow> int \<Rightarrow> string \<Rightarrow> params \<Rightarrow> adapter \<Rightarrow> (error + json) \<times> adapter"
  where
  "makeRequest E now endpoint ps st =
     (let url = baseUrl @ endpoint;
          key = cacheKey E endpoint ps;
          cachedData = cache_get E now (cache st) key
      in if truthy cachedData then (Inr cachedData, st)
         else (case canAccessEndpoint E now endpoint st of
                 (canAccess, st1) \<Rightarrow>
                   if \<not> canAccess then getFallbackData E now endpoint ps st1
                   else (case http_get E url ps st1 of
                           (Resolved s d, st2) \<Rightarrow>
                             (Inr d, st2\<lparr>cache := cache_set now (cache st2) key d\<rparr>)
                         | (Rejected err, st2) \<Rightarrow>
                             if status err = Some 402 then getFallbackData E now endpoint ps st2
                             else if status err = Some 429 then getFallbackData E now endpoint ps st2
                             else (Inl (Transport err), st2))))"
| "getFallbackData E now endpoint ps st =
     (if str_includes endpoint ''/coins/list/v2''
      then (case makeRequest E now ''/public/coins/list/v1'' ps st of
              (Inr r, st1) \<Rightarrow> (Inr r, st1)
            | (Inl e, st1) \<Rightarrow> (Inr (mock_envelope E endpoint ps), st1))
      else (Inr (mock_envelope E endpoint ps), st))"
  by pat_completeness auto
termination
  by (relation "measure (\<lambda>x. case x of
         Inl (E, now, endpoint, ps, st) \<Rightarrow> (if str_includes endpoint ''/coins/list/v2'' then 3 else 1)
       | Inr (E, now, endpoint, ps, st) \<Rightarrow> (if str_includes endpoint ''/coins/list/v2'' then 2 else 0))")
    auto

declare makeRequest.simps [simp del]
declare getFallbackData.simps [simp del]

section \<open>The public operations (index.js)\<close>

text \<open>\<open>result.data\<close>: reading a property of \<open>null\<close> or \<open>undefined\<close> throws a TypeError; a value
  that is not an object has no such property.\<close>

definition get_data :: "json \<Rightarrow> error + json" where
  "get_data result =
     (case result of
        JUndefined \<Rightarrow> Inl TypeError
      | JNull \<Rightarrow> Inl TypeError
      | JObj kvs \<Rightarrow> Inr (get_prop kvs ''data'')
      | _ \<Rightarrow> Inr JUndefined)"

definition result_data :: "(error + json) \<times> adapter \<Rightarrow> (error + json) \<times> adapter" where
  "result_data r = (case r of (Inl e, st) \<Rightarrow> (Inl e, st) | (Inr result, st) \<Rightarrow> (get_data result, st))"

text \<open>A default value of a parameter replaces an argument that is omitted or \<open>undefined\<close>.\<close>

definition or_undefined :: "json \<Rightarrow> json \<Rightarrow> json" where
  "or_undefined v d = (if v = JUndefined then d else v)"

text \<open>\<open>getCoinsList(limit = 50)\<close>\<close>

definition getCoinsList :: "env \<Rightarrow> int \<Rightarrow> json \<Rightarrow> adapter \<Rightarrow> (error + json) \<times> adapter" where
  "getCoinsList E now limit st =
     result_data
       (makeRequest E now ''/public/coins/list/v2'' [(''limit'', or_undefined limit (JNum 50))] st)"

definition getCoinData :: "env \<Rightarrow> int \<Rightarrow> string option \<Rightarrow> adapter \<Rightarrow> (error + json) \<times> adapter" where
  "getCoinData E now coin st =
     (let normalizedCoin = normalizeCoinIdentifier coin
      in result_data (makeRequest E now (''/public/coins/'' @ normalizedCoin @ ''/v1'') [] st))"

text \<open>\<open>getTopicSentiment(topic, days = 7)\<close>: the body never reads \<open>days\<close>.\<close>

definition getTopicSentiment :: "env \<Rightarrow> int \<Rightarrow> string \<Rightarrow> json \<Rightarrow> adapter \<Rightarrow> (error + json) \<times> adapter" where
  "getTopicSentiment E now topic days st =
     result_data (makeRequest E now (''/public/topic/'' @ topic @ ''/v1'') [] st)"

definition getTimeSeries :: "env \<Rightarrow> int \<Rightarrow> string option \<Rightarrow> json \<Rightarrow> json \<Rightarrow> adapter \<Rightarrow> (error + json) \<times> adapter" where
  "getTimeSeries E now coin interval limit st =
     (let normalizedCoin = normalizeCoinIdentifier coin
      in result_data
           (makeRequest E now (''/public/coins/'' @ normalizedCoin @ ''/time-series/v2'')
              [(''interval'', or_undefined interval (JStr ''1d'')),
               (''limit'', or_undefined limit (JNum 30))] st))"

subsection \<open>Ecosystems\<close>

definition categoryMap :: "(string \<times> string) list" where
  "categoryMap =
     [(''ai-agents'', ''ai''), (''defai'', ''defi''), (''solana'', ''solana''),
      (''ethereum'', ''ethereum''), (''bitcoin'', ''bitcoin'')]"

text \<open>
  \<open>categoryMap\<close> is an object literal, so \<open>categoryMap[ecosystem]\<close> also finds the members it
  inherits from \<open>Object.prototype\<close>: functions and, for \<open>__proto__\<close>, the prototype itself.
  All of them are truthy and none is a string.
\<close>

definition Object_prototype_names :: "string list" where
  "Object_prototype_names =
     [''constructor'', ''__defineGetter__'', ''__defineSetter__'', ''hasOwnProperty'',
      ''__lookupGetter__'', ''__lookupSetter__'', ''isPrototypeOf'', ''propertyIsEnumerable'',
      ''toString'', ''valueOf'', ''__proto__'', ''toLocaleString'']"

text \<open>\<open>categoryMap[ecosystem] || ecosystem\<close>: \<open>Some\<close> the category when it is a string,
  \<open>None\<close> when it is an inherited member.\<close>

definition category_of :: "string \<Rightarrow> string option" where
  "category_of ecosystem =
     (case map_of categoryMap ecosystem of
        Some c \<Rightarrow> Some c
      | None \<Rightarrow> if ecosystem \<in> set Object_prototype_names then None else Some ecosystem)"

text \<open>\<open>Array.isArray(coin.categories) ? coin.categories
        : String(coin.categories).split(',').map(c => c.trim())\<close>\<close>

definition categories_of :: "json \<Rightarrow> json list" where
  "categories_of v =
     (case v of
        JArr cs \<Rightarrow> cs
      | _ \<Rightarrow> map (\<lambda>c. JStr (trim c)) (split_on CHR '','' (js_String v)))"

text \<open>
  \<open>categories.some(c => c.toLowerCase() === category.toLowerCase())\<close>: the test stops at
  the first match; \<open>toLowerCase\<close> on a value that is not a string throws a TypeError.
\<close>

fun some_matches :: "string option \<Rightarrow> json list \<Rightarrow> error + bool" where
  "some_matches category [] = Inr False"
| "some_matches category (c # cs) =
     (case c of
        JStr s \<Rightarrow>
          (case category of
             None \<Rightarrow> Inl TypeError
           | Some k \<Rightarrow> if toLowerCase s = toLowerCase k then Inr True else some_matches category cs)
      | _ \<Rightarrow> Inl TypeError)"

text \<open>The predicate of the filter, on one element of \<open>allCoins\<close>.\<close>

definition coin_in_category :: "string option \<Rightarrow> json \<Rightarrow> error + bool" where
  "coin_in_category category coin =
     (case coin of
        JUndefined \<Rightarrow> Inl TypeError
      | JNull \<Rightarrow> Inl TypeError
      | JObj kvs \<Rightarrow>
          if \<not> truthy (get_prop kvs ''categories'') then Inr False
          else some_matches category (categories_of (get_prop kvs ''categories''))
      | _ \<Rightarrow> Inr False)"

text \<open>\<open>allCoins.filter(p)\<close>, where \<open>p\<close> may throw.\<close>

fun filter_coins :: "(json \<Rightarrow> error + bool) \<Rightarrow> json list \<Rightarrow> error + json list" where
  "filter_coins p [] = Inr []"
| "filter_coins p (c # cs) =
     (case p c of
        Inl e \<Rightarrow> Inl e
      | Inr b \<Rightarrow>
          (case filter_coins p cs of
             Inl e \<Rightarrow> Inl e
           | Inr r \<Rightarrow> Inr (if b then c # r else r)))"

text \<open>
  \<open>getEcosystemCoins(ecosystem, limit = 15)\<close>. \<open>limit\<close> is a number of coins, a natural
  number, so \<open>slice(0, limit)\<close> is \<open>take limit\<close>; a call that omits it is the call with 15.
  The \<open>catch\<close> logs and rethrows.
\<close>

definition getEcosystemCoins :: "env \<Rightarrow> int \<Rightarrow> string \<Rightarrow> nat \<Rightarrow> adapter \<Rightarrow> (error + json list) \<times> adapter" where
  "getEcosystemCoins E now ecosystem limit st =
     (let category = category_of ecosystem
      in (case getCoinsList E now (JNum 200) st of
            (Inl e, st1) \<Rightarrow> (Inl e, st1)
          | (Inr allCoins, st1) \<Rightarrow>
              (case allCoins of
                 JArr coins \<Rightarrow>
                   (case filter_coins (coin_in_category category) coins of
                      Inl e \<Rightarrow> (Inl e, st1)
                    | Inr filteredCoins \<Rightarrow> (Inr (take limit filteredCoins), st1))
               | _ \<Rightarrow> (Inl TypeError, st1))))"

section \<open>Fixtures\<close>

text \<open>
  Concrete environments and states for the examples below. \<open>stub_stringify\<close> stands in for
  \<open>JSON.stringify\<close> on flat parameter objects whose values are numbers or strings with
  nothing to escape. \<open>stub_env r\<close> answers the \<open>n\<close>-th GET with \<open>r n\<close>; its cache keeps an
  entry for five minutes and evicts nothing.
\<close>

definition stub_value :: "json \<Rightarrow> string" where
  "stub_value v = (case v of JStr s \<Rightarrow> CHR 0x22 # s @ [CHR 0x22] | _ \<Rightarrow> js_String v)"

fun stub_members :: "params \<Rightarrow> string" where
  "stub_members [] = []"
| "stub_members [(k, v)] = CHR 0x22 # k @ [CHR 0x22] @ '':'' @ stub_value v"
| "stub_members ((k, v) # kvs) =
     CHR 0x22 # k @ [CHR 0x22] @ '':'' @ stub_value v @ '','' @ stub_members kvs"

definition stub_stringify :: "params \<Rightarrow> string" where
  "stub_stringify ps = ''{'' @ stub_members ps @ ''}''"

definition stub_env :: "(nat \<Rightarrow> http_result) \<Rightarrow> env" where
  "stub_env r =
     \<lparr>axios_get = (\<lambda>n url auth ps. r n),
      JSON_stringify = stub_stringify,
      mock_getCoinsList = (\<lambda>limit. JArr []),
      mock_getCoinData = (\<lambda>symbol. JObj [(''s'', JStr symbol)]),
      mock_getTopicData = (\<lambda>topic. JObj [(''topic'', JStr topic)]),
      cache_ttl = 300000,
      cache_evicts = (\<lambda>key stored. None)\<rparr>"

definition fresh_adapter :: "string option \<Rightarrow> adapter" where
  "fresh_adapter k =
     \<lparr>apiKey = k, apiTier = None, lastTierCheck = None, cache = Map.empty, calls = []\<rparr>"

text \<open>An adapter whose tier was detected at time 1000.\<close>

definition detected_adapter :: "tier \<Rightarrow> adapter" where
  "detected_adapter t =
     \<lparr>apiKey = Some ''key'', apiTier = Some t, lastTierCheck = Some 1000, cache = Map.empty,
      calls = []\<rparr>"

section \<open>Notions used in the statements\<close>

text \<open>The marker a caller reads off a result: \<open>result.meta.using_mock_data === true\<close>.\<close>

definition meta_using_mock_data :: "json \<Rightarrow> bool" where
  "meta_using_mock_data result =
     (case result of
        JObj kvs \<Rightarrow>
          (case get_prop kvs ''meta'' of
             JObj m \<Rightarrow> get_prop m ''using_mock_data'' = JBool True
           | _ \<Rightarrow> False)
      | _ \<Rightarrow> False)"

text \<open>
  The request made at time \<open>now\<close> that took \<open>st\<close> to \<open>st'\<close> with result \<open>r\<close> stored a
  response: one of the GETs it issued, for some path and parameters, resolved with a body
  \<open>d\<close>; the cache afterwards is the cache before with \<open>d\<close> set under the key of that path
  and those parameters; and \<open>d\<close> is the value returned.
\<close>

definition stored_response :: "env \<Rightarrow> int \<Rightarrow> adapter \<Rightarrow> error + json \<Rightarrow> adapter \<Rightarrow> bool" where
  "stored_response E now st r st' \<longleftrightarrow>
     (\<exists>n path q a s d.
        length (calls st) \<le> n \<and> n < length (calls st') \<and>
        calls st' ! n = (baseUrl @ path, a, q) \<and>
        axios_get E n (baseUrl @ path) a q = Resolved s d \<and>
        cache st' = cache_set now (cache st) (cacheKey E path q) d \<and> r = Inr d)"

text \<open>
  The ecosystem filter in the words of the specification, to compare the code with: a coin
  is kept when it has categories and its category set, read off a sequence of strings or
  off one comma-separated string split and trimmed, holds the category up to letter case.
  A coin list is well formed when every coin is an object whose \<open>categories\<close> are absent
  (or otherwise falsy), a string, or a sequence of strings.
\<close>

definition spec_category_set :: "json \<Rightarrow> string list" where
  "spec_category_set v =
     (case v of
        JArr cs \<Rightarrow> concat (map (\<lambda>c. case c of JStr s \<Rightarrow> [s] | _ \<Rightarrow> []) cs)
      | JStr s \<Rightarrow> map trim (split_on CHR '','' s)
      | _ \<Rightarrow> [])"

definition spec_in_category :: "string \<Rightarrow> json \<Rightarrow> bool" where
  "spec_in_category category coin =
     (case coin of
        JObj kvs \<Rightarrow>
          truthy (get_prop kvs ''categories'') \<and>
          list_ex (\<lambda>s. toLowerCase s = toLowerCase category)
            (spec_category_set (get_prop kvs ''categories''))
      | _ \<Rightarrow> False)"

definition is_JStr :: "json \<Rightarrow> bool" where
  "is_JStr v = (case v of JStr s \<Rightarrow> True | _ \<Rightarrow> False)"

definition coin_well_formed :: "json \<Rightarrow> bool" where
  "coin_well_formed coin =
     (case coin of
        JObj kvs \<Rightarrow>
          (case get_prop kvs ''categories'' of
             JArr cs \<Rightarrow> list_all is_JStr cs
           | JStr s \<Rightarrow> True
           | v \<Rightarrow> \<not> truthy v)
      | _ \<Rightarrow> False)"

section \<open>Properties of the helpers\<close>

lemmas letter_defs =
  upper_letters_def lower_letters_def ascii_upper_def ascii_lower_def latin1_upper_def
  latin1_lower_def

lemma toLowerCase_char_other:
  "c \<notin> set upper_letters \<Longrightarrow> toLowerCase_char c = c"
proof -
  assume "c \<notin> set upper_letters"
  then have "map_of (zip upper_letters lower_letters) c = None"
    by (simp add: map_of_eq_None_iff letter_defs)
  then show ?thesis
    by (simp add: toLowerCase_char_def)
qed

lemma toLowerCase_char_not_upper: "toLowerCase_char c \<notin> set upper_letters"
proof (cases "c \<in> set upper_letters")
  case True
  then show ?thesis
    by (auto simp: toLowerCase_char_def letter_defs)
next
  case False
  then show ?thesis
    by (simp add: toLowerCase_char_other)
qed

lemma toLowerCase_char_whitespace: "is_whitespace (toLowerCase_char c) = is_whitespace c"
proof (cases "c \<in> set upper_letters")
  case True
  then show ?thesis
    by (auto simp: toLowerCase_char_def letter_defs is_whitespace_def)
next
  case False
  then show ?thesis
    by (simp add: toLowerCase_char_other)
qed

lemma toLowerCase_fixed:
  "\<forall>c \<in> set s. c \<notin> set upper_letters \<Longrightarrow> toLowerCase s = s"
  by (induction s) (simp_all add: toLowerCase_def toLowerCase_char_other)

text \<open>
  C6. \<open>normalizeCoinIdentifier\<close> sends the absent and the empty input to the empty string,
  is the identity on every string matching \<open>^[A-Z0-9]{2,6}$\<close>, and sends every other
  non-empty string to its lowercase form with the whitespace deleted: a string with no
  whitespace character and no capital letter, which \<open>toLowerCase\<close> leaves as it is.
\<close>

theorem normalizeCoinIdentifier_contract:
  "normalizeCoinIdentifier None = [] \<and>
   normalizeCoinIdentifier (Some []) = [] \<and>
   (is_ticker s \<longrightarrow> normalizeCoinIdentifier (Some s) = s) \<and>
   (s \<noteq> [] \<and> \<not> is_ticker s \<longrightarrow>
      normalizeCoinIdentifier (Some s) = filter (\<lambda>c. \<not> is_whitespace c) (toLowerCase s) \<and>
      (\<forall>c \<in> set (normalizeCoinIdentifier (Some s)).
          \<not> is_whitespace c \<and> c \<notin> set upper_letters) \<and>
      toLowerCase (normalizeCoinIdentifier (Some s)) = normalizeCoinIdentifier (Some s))"
proof -
  have t: "is_ticker s \<Longrightarrow> s \<noteq> []"
    by (auto simp: is_ticker_def)
  have u: "\<forall>c \<in> set (filter (\<lambda>c. \<not> is_whitespace c) (toLowerCase s)). c \<notin> set upper_letters"
    by (auto simp: toLowerCase_def toLowerCase_char_not_upper)
  have f: "toLowerCase (filter (\<lambda>c. \<not> is_whitespace c) (toLowerCase s)) =
      filter (\<lambda>c. \<not> is_whitespace c) (toLowerCase s)"
    by (rule toLowerCase_fixed [OF u])
  show ?thesis
    using t u f by (auto simp: normalizeCoinIdentifier_def)
qed

theorem normalizeCoinIdentifier_contract_witness:
  "is_ticker ''BTC'' \<and> normalizeCoinIdentifier (Some ''BTC'') = ''BTC'' \<and>
   ''Bitcoin Cash'' \<noteq> [] \<and> \<not> is_ticker ''Bitcoin Cash'' \<and>
   normalizeCoinIdentifier (Some ''Bitcoin Cash'') = ''bitcoincash'' \<and>
   normalizeCoinIdentifier (Some [CHR ''C'', CHR ''a'', CHR ''f'', CHR 0xC9, CHR 0xA0, CHR ''X'']) =
     [CHR ''c'', CHR ''a'', CHR ''f'', CHR 0xE9, CHR ''x'']"
proof -
  let ?cafe = "[CHR ''C'', CHR ''a'', CHR ''f'', CHR 0xC9, CHR 0xA0, CHR ''X'']"
  have t: "is_ticker ''BTC''"
    by (simp add: is_ticker_def ascii_upper_def digit_chars_def)
  have n: "''Bitcoin Cash'' \<noteq> [] \<and> \<not> is_ticker ''Bitcoin Cash''"
    by (simp add: is_ticker_def)
  have n2: "?cafe \<noteq> [] \<and> \<not> is_ticker ?cafe"
    by (simp add: is_ticker_def ascii_upper_def digit_chars_def)
  have l: "filter (\<lambda>c. \<not> is_whitespace c) (toLowerCase ''Bitcoin Cash'') = ''bitcoincash''"
    by (simp add: toLowerCase_def toLowerCase_char_def letter_defs is_whitespace_def)
  have l2: "filter (\<lambda>c. \<not> is_whitespace c) (toLowerCase ?cafe) =
      [CHR ''c'', CHR ''a'', CHR ''f'', CHR 0xE9, CHR ''x'']"
    by (simp add: toLowerCase_def toLowerCase_char_def letter_defs is_whitespace_def)
  note c = normalizeCoinIdentifier_contract [THEN conjunct2, THEN conjunct2]
  have a: "normalizeCoinIdentifier (Some ''BTC'') = ''BTC''"
    by (rule c [of "''BTC''", THEN conjunct1, THEN mp, OF t])
  have b: "normalizeCoinIdentifier (Some ''Bitcoin Cash'') = ''bitcoincash''"
    using c [of "''Bitcoin Cash''", THEN conjunct2, THEN mp, OF n, THEN conjunct1]
    by (simp only: l)
  have b2: "normalizeCoinIdentifier (Some ?cafe) = [CHR ''c'', CHR ''a'', CHR ''f'', CHR 0xE9, CHR ''x'']"
    using c [of ?cafe, THEN conjunct2, THEN mp, OF n2, THEN conjunct1]
    by (simp only: l2)
  from t n a b b2 show ?thesis by (simp only: simp_thms)
qed

section \<open>Properties of the aggregations\<close>

lemma foldl_add_sum_list: "foldl (\<lambda>acc val. acc + val) a xs = a + sum_list (xs::real list)"
  by (induction xs arbitrary: a) auto

lemma socialContributors_nonzero: "socialContributors d \<noteq> 0"
  by (simp add: socialContributors_def or_default_def split: option.splits)

text \<open>
  C7, as stated, fails: the divisor is the contributor count itself unless it is zero or
  absent, not its maximum with 1. For a point with social volume 1 and a contributor count
  of one half the code contributes 2, and \<open>1 / max (1/2) 1\<close> is 1.
\<close>

theorem engagement_max_counterexample:
  "engagement_of \<lparr>gs = None, sv = Some 1, sc = Some (1 / 2)\<rparr> = 2 \<and>
   (1::real) / max (1 / 2) 1 = 1 \<and>
   engagement_of \<lparr>gs = None, sv = Some 1, sc = Some (1 / 2)\<rparr> \<noteq> 1 / max (1 / 2) 1"
  by (simp add: engagement_of_def socialContributors_def or_default_def)

text \<open>
  C7, amended. The three aggregates of the empty sequence are 0. The divisor of the
  engagement is never zero: each point contributes its social volume divided by its
  contributor count, with 1 in place of a zero or absent count, and the average engagement
  is the mean of these contributions. The divisor equals \<open>max count 1\<close> whenever the count
  is absent, zero or at least 1.
\<close>

theorem aggregates_empty_and_engagement_divisor:
  "calculateAverageSentiment (Some []) = 0 \<and>
   calculateTotalSocialVolume (Some []) = 0 \<and>
   calculateAverageEngagement (Some []) = 0 \<and>
   socialContributors d \<noteq> 0 \<and>
   socialContributors d = (case sc d of None \<Rightarrow> 1 | Some c \<Rightarrow> if c = 0 then 1 else c) \<and>
   engagement_of d = or_default (sv d) 0 / socialContributors d \<and>
   calculateAverageEngagement (Some ds) =
     (if ds = [] then 0 else sum_list (map engagement_of ds) / real (length ds)) \<and>
   ((case sc d of None \<Rightarrow> True | Some c \<Rightarrow> c = 0 \<or> 1 \<le> c) \<longrightarrow>
      socialContributors d = max (case sc d of None \<Rightarrow> 0 | Some c \<Rightarrow> c) 1)"
proof -
  have e: "calculateAverageSentiment (Some []) = 0" "calculateTotalSocialVolume (Some []) = 0"
    "calculateAverageEngagement (Some []) = 0"
    by (simp_all add: calculateAverageSentiment_def calculateTotalSocialVolume_def
        calculateAverageEngagement_def)
  have s: "socialContributors d = (case sc d of None \<Rightarrow> 1 | Some c \<Rightarrow> if c = 0 then 1 else c)"
    by (simp add: socialContributors_def or_default_def)
  have g: "engagement_of d = or_default (sv d) 0 / socialContributors d"
    by (simp add: engagement_of_def)
  have m: "calculateAverageEngagement (Some ds) =
     (if ds = [] then 0 else sum_list (map engagement_of ds) / real (length ds))"
    by (simp add: calculateAverageEngagement_def foldl_add_sum_list)
  have x: "(case sc d of None \<Rightarrow> True | Some c \<Rightarrow> c = 0 \<or> 1 \<le> c) \<longrightarrow>
      socialContributors d = max (case sc d of None \<Rightarrow> 0 | Some c \<Rightarrow> c) 1"
    by (auto simp: s split: option.splits)
  from e s g m x socialContributors_nonzero show ?thesis by blast
qed

theorem aggregates_empty_and_engagement_divisor_witness:
  "socialContributors \<lparr>gs = Some 50, sv = Some 10, sc = Some 0\<rparr> = 1 \<and>
   engagement_of \<lparr>gs = Some 50, sv = Some 10, sc = Some 0\<rparr> = 10 \<and>
   calculateAverageEngagement (Some [\<lparr>gs = Some 50, sv = Some 10, sc = Some 0\<rparr>]) = 10 \<and>
   socialContributors \<lparr>gs = Some 50, sv = Some 10, sc = Some 0\<rparr> = max 0 1"
proof -
  let ?d = "\<lparr>gs = Some 50, sv = Some 10, sc = Some 0\<rparr>"
  note t = aggregates_empty_and_engagement_divisor
    [of ?d "[?d]", THEN conjunct2, THEN conjunct2, THEN conjunct2, THEN conjunct2]
  have h: "(case sc ?d of None \<Rightarrow> True | Some c \<Rightarrow> c = 0 \<or> 1 \<le> c)" by simp
  have a: "socialContributors ?d = 1"
    using t [THEN conjunct1] by simp
  have b: "engagement_of ?d = 10"
    using t [THEN conjunct2, THEN conjunct1] a by (simp add: or_default_def)
  have c: "calculateAverageEngagement (Some [?d]) = 10"
    using t [THEN conjunct2, THEN conjunct2, THEN conjunct1] b by simp
  have d: "socialContributors ?d = max 0 1"
    using t [THEN conjunct2, THEN conjunct2, THEN conjunct2, THEN mp, OF h] by simp
  from a b c d show ?thesis by simp
qed

section \<open>Properties of the tier detector\<close>

lemma memoized_Some: "memoized st now = Some t \<Longrightarrow> apiTier st = Some t"
  by (auto simp: memoized_def split: option.splits if_splits)

lemma memoized_None_iff:
  "memoized st now = None \<longleftrightarrow>
     \<not> (\<exists>t l. apiTier st = Some t \<and> lastTierCheck st = Some l \<and> l \<noteq> 0 \<and>
             now - l < 24 * 60 * 60 * 1000)"
  by (auto simp: memoized_def tierCheckInterval_def split: option.splits)

lemma detectApiTier_sets_tier: "apiTier (snd (detectApiTier E now st)) \<noteq> None"
proof (cases "memoized st now")
  case None
  then show ?thesis
    by (simp add: detectApiTier_def http_get_def http_logged_def)
next
  case (Some t)
  then show ?thesis
    by (simp add: detectApiTier_def memoized_Some)
qed

lemma detectApiTier_cache: "cache (snd (detectApiTier E now st)) = cache st"
  by (cases "memoized st now") (simp_all add: detectApiTier_def http_get_def http_logged_def)

lemma detectApiTier_apiKey: "apiKey (snd (detectApiTier E now st)) = apiKey st"
  by (cases "memoized st now") (simp_all add: detectApiTier_def http_get_def http_logged_def)

lemma detectApiTier_calls:
  "calls (snd (detectApiTier E now st)) = calls st \<or>
   calls (snd (detectApiTier E now st)) =
     calls st @ [(probe_url, authorization st, [(''limit'', JNum 1)])]"
  by (cases "memoized st now") (simp_all add: detectApiTier_def http_get_def http_logged_def)

text \<open>
  C3, as stated, fails in its last part. When the memoized tier is still fresh the call
  returns before any assignment, so the timestamp stays the old one (1000, not the 2000 of
  the call); and with no credential the call returns right after setting the tier, so a
  fresh adapter keeps no timestamp at all.
\<close>

theorem detectApiTier_timestamp_counterexample:
  "lastTierCheck (snd (detectApiTier (stub_env (\<lambda>n. Resolved 200 JNull)) 2000
      (detected_adapter Paid))) = Some 1000 \<and>
   lastTierCheck (snd (detectApiTier (stub_env (\<lambda>n. Resolved 200 JNull)) 2000
      (fresh_adapter None))) = None"
  by (simp add: detectApiTier_def memoized_def tierCheckInterval_def has_key_def
      fresh_adapter_def detected_adapter_def)

text \<open>
  C3, amended. A tier computed within the last 24 hours is returned with the state
  untouched: no probe, no update. Otherwise, with no credential the result is
  \<open>Invalid\<close>, it is memoized, and no GET is issued. Otherwise exactly one GET goes to the
  probe url with \<open>limit = 1\<close>, the result is \<open>Paid\<close> on a 200 response, \<open>Free\<close> on a 402 error,
  \<open>Invalid\<close> on a 401 error and \<open>Unknown\<close> on anything else, and both the memoized tier and
  the timestamp are updated. The cache is never touched.
\<close>

theorem detectApiTier_contract:
  "(apiTier st = Some t \<and> lastTierCheck st = Some l \<and> l \<noteq> 0 \<and> now - l < 24 * 60 * 60 * 1000 \<longrightarrow>
      detectApiTier E now st = (t, st)) \<and>
   (memoized st now = None \<and> \<not> has_key st \<longrightarrow>
      fst (detectApiTier E now st) = Invalid \<and>
      apiTier (snd (detectApiTier E now st)) = Some Invalid \<and>
      calls (snd (detectApiTier E now st)) = calls st) \<and>
   (memoized st now = None \<and> has_key st \<longrightarrow>
      fst (detectApiTier E now st) =
        (case axios_get E (length (calls st)) probe_url (authorization st) [(''limit'', JNum 1)] of
           Resolved s d \<Rightarrow> if s = 200 then Paid else Unknown
         | Rejected err \<Rightarrow>
             if status err = Some 402 then Free
             else if status err = Some 401 then Invalid else Unknown) \<and>
      calls (snd (detectApiTier E now st)) =
        calls st @ [(probe_url, authorization st, [(''limit'', JNum 1)])] \<and>
      apiTier (snd (detectApiTier E now st)) = Some (fst (detectApiTier E now st)) \<and>
      lastTierCheck (snd (detectApiTier E now st)) = Some now) \<and>
   cache (snd (detectApiTier E now st)) = cache st \<and>
   (memoized st now = None \<longleftrightarrow>
      \<not> (\<exists>t l. apiTier st = Some t \<and> lastTierCheck st = Some l \<and> l \<noteq> 0 \<and>
              now - l < 24 * 60 * 60 * 1000))"
proof -
  have a: "apiTier st = Some t \<and> lastTierCheck st = Some l \<and> l \<noteq> 0 \<and> now - l < 24 * 60 * 60 * 1000 \<longrightarrow>
      detectApiTier E now st = (t, st)"
    by (simp add: detectApiTier_def memoized_def tierCheckInterval_def)
  have b: "memoized st now = None \<and> \<not> has_key st \<longrightarrow>
      fst (detectApiTier E now st) = Invalid \<and>
      apiTier (snd (detectApiTier E now st)) = Some Invalid \<and>
      calls (snd (detectApiTier E now st)) = calls st"
    by (simp add: detectApiTier_def)
  have c: "memoized st now = None \<and> has_key st \<longrightarrow>
      fst (detectApiTier E now st) =
        (case axios_get E (length (calls st)) probe_url (authorization st) [(''limit'', JNum 1)] of
           Resolved s d \<Rightarrow> if s = 200 then Paid else Unknown
         | Rejected err \<Rightarrow>
             if status err = Some 402 then Free
             else if status err = Some 401 then Invalid else Unknown) \<and>
      calls (snd (detectApiTier E now st)) =
        calls st @ [(probe_url, authorization st, [(''limit'', JNum 1)])] \<and>
      apiTier (snd (detectApiTier E now st)) = Some (fst (detectApiTier E now st)) \<and>
      lastTierCheck (snd (detectApiTier E now st)) = Some now"
    by (auto simp: detectApiTier_def http_get_def http_response_def http_logged_def
        probe_tier_def split: http_result.splits option.splits)
  from a b c detectApiTier_cache [of E now st] memoized_None_iff [of st now]
  show ?thesis by blast
qed

theorem detectApiTier_contract_witness:
  "detectApiTier (stub_env (\<lambda>n. Resolved 200 JNull)) 2000 (detected_adapter Free) =
     (Free, detected_adapter Free) \<and>
   fst (detectApiTier (stub_env (\<lambda>n. Resolved 200 JNull)) 2000 (fresh_adapter None)) = Invalid \<and>
   fst (detectApiTier (stub_env (\<lambda>n. Rejected (HttpError (Some 402) ''Payment Required''))) 2000
          (fresh_adapter (Some ''key''))) = Free \<and>
   lastTierCheck (snd (detectApiTier
          (stub_env (\<lambda>n. Rejected (HttpError (Some 402) ''Payment Required''))) 2000
          (fresh_adapter (Some ''key'')))) = Some 2000"
proof -
  let ?up = "stub_env (\<lambda>n. Resolved 200 JNull)"
  let ?pay = "stub_env (\<lambda>n. Rejected (HttpError (Some 402) ''Payment Required''))"
  have h1: "apiTier (detected_adapter Free) = Some Free \<and>
      lastTierCheck (detected_adapter Free) = Some 1000 \<and> (1000::int) \<noteq> 0 \<and>
      (2000::int) - 1000 < 24 * 60 * 60 * 1000"
    by (simp add: detected_adapter_def)
  have h2: "memoized (fresh_adapter None) 2000 = None \<and> \<not> has_key (fresh_adapter None)"
    by (simp add: memoized_def has_key_def fresh_adapter_def)
  have h3: "memoized (fresh_adapter (Some ''key'')) 2000 = None \<and>
      has_key (fresh_adapter (Some ''key''))"
    by (simp add: memoized_def has_key_def fresh_adapter_def)
  have a: "detectApiTier ?up 2000 (detected_adapter Free) = (Free, detected_adapter Free)"
    by (rule detectApiTier_contract [of "detected_adapter Free" Free 1000 2000 ?up,
          THEN conjunct1, THEN mp, OF h1])
  have b: "fst (detectApiTier ?up 2000 (fresh_adapter None)) = Invalid"
    by (rule detectApiTier_contract [of "fresh_adapter None" Free 1000 2000 ?up,
          THEN conjunct2, THEN conjunct1, THEN mp, OF h2, THEN conjunct1])
  note p = detectApiTier_contract [of "fresh_adapter (Some ''key'')" Free 1000 2000 ?pay,
          THEN conjunct2, THEN conjunct2, THEN conjunct1, THEN mp, OF h3]
  have c: "fst (detectApiTier ?pay 2000 (fresh_adapter (Some ''key''))) = Free"
    using p [THEN conjunct1] by (simp add: stub_env_def)
  have d: "lastTierCheck (snd (detectApiTier ?pay 2000 (fresh_adapter (Some ''key'')))) = Some 2000"
    by (rule p [THEN conjunct2, THEN conjunct2, THEN conjunct2])
  from a b c d show ?thesis by (simp only: simp_thms)
qed

section \<open>Properties of the path matching\<close>

lemma regex_test_Lit_iff:
  "regex_test (Lit c # ts) s \<longleftrightarrow> (\<exists>r. s = c # r \<and> regex_test ts r)"
  by (cases s) auto

lemma regex_test_lits:
  "regex_test (map Lit p @ ts) s \<longleftrightarrow> (\<exists>r. s = p @ r \<and> regex_test ts r)"
  by (induction p arbitrary: s) (auto simp: regex_test_Lit_iff simp del: regex_test.simps)

lemma regex_test_only_lits: "regex_test (map Lit p) s \<longleftrightarrow> s = p"
  using regex_test_lits [of p "[]" s] by simp

lemma regex_test_Segment_iff:
  "regex_test (Segment # ts) s \<longleftrightarrow>
     (\<exists>a r. s = a @ r \<and> a \<noteq> [] \<and> CHR ''/'' \<notin> set a \<and> regex_test ts r)"
proof
  assume "regex_test (Segment # ts) s"
  then obtain n where n: "1 \<le> n" "n \<le> length s"
    "list_all (\<lambda>x. x \<noteq> CHR ''/'') (take n s)" "regex_test ts (drop n s)"
    by (auto simp: list_ex_iff)
  have "s = take n s @ drop n s" by simp
  moreover from n have "take n s \<noteq> []" by auto
  moreover from n have "CHR ''/'' \<notin> set (take n s)" by (auto simp: list_all_iff)
  ultimately show "\<exists>a r. s = a @ r \<and> a \<noteq> [] \<and> CHR ''/'' \<notin> set a \<and> regex_test ts r"
    using n(4) by blast
next
  assume "\<exists>a r. s = a @ r \<and> a \<noteq> [] \<and> CHR ''/'' \<notin> set a \<and> regex_test ts r"
  then obtain a r where ar: "s = a @ r" "a \<noteq> []" "CHR ''/'' \<notin> set a" "regex_test ts r"
    by blast
  then have "length a \<in> {1..<Suc (length s)}"
    by (cases a) auto
  then have "length a \<in> set [1..<Suc (length s)]"
    by (simp only: set_upt)
  moreover from ar have "list_all (\<lambda>x. x \<noteq> CHR ''/'') (take (length a) s)"
    by (auto simp: list_all_iff)
  moreover from ar have "regex_test ts (drop (length a) s)" by simp
  ultimately show "regex_test (Segment # ts) s"
    unfolding regex_test.simps list_ex_iff by blast
qed

lemma replace_params_topic:
  "replace_params ''/public/topic/:topic/v1'' =
     map Lit ''/public/topic/'' @ Segment # map Lit ''/v1''"
  by simp

lemma replace_params_coins:
  "replace_params ''/public/coins/list/v1'' = map Lit ''/public/coins/list/v1''"
  by simp

lemma replace_params_categories:
  "replace_params ''/public/categories/list/v1'' = map Lit ''/public/categories/list/v1''"
  by simp

lemma free_endpoints_match:
  "list_ex (\<lambda>freeEndpoint. regex_test (replace_params freeEndpoint) endpoint) free_endpoints
     \<longleftrightarrow>
   ((\<exists>topic. topic \<noteq> [] \<and> CHR ''/'' \<notin> set topic \<and>
        endpoint = ''/public/topic/'' @ topic @ ''/v1'') \<or>
    endpoint = ''/public/coins/list/v1'' \<or>
    endpoint = ''/public/categories/list/v1'')"
proof -
  have "regex_test (replace_params ''/public/topic/:topic/v1'') endpoint \<longleftrightarrow>
      (\<exists>topic. topic \<noteq> [] \<and> CHR ''/'' \<notin> set topic \<and>
         endpoint = ''/public/topic/'' @ topic @ ''/v1'')"
    unfolding replace_params_topic regex_test_lits regex_test_Segment_iff regex_test_only_lits
    by auto
  moreover have "regex_test (replace_params ''/public/coins/list/v1'') endpoint \<longleftrightarrow>
      endpoint = ''/public/coins/list/v1''"
    unfolding replace_params_coins regex_test_only_lits ..
  moreover have "regex_test (replace_params ''/public/categories/list/v1'') endpoint \<longleftrightarrow>
      endpoint = ''/public/categories/list/v1''"
    unfolding replace_params_categories regex_test_only_lits ..
  ultimately show ?thesis
    unfolding free_endpoints_def list_ex_Cons_iff list_ex_Nil_iff by blast
qed

lemma ensureTier_tier: "apiTier (ensureTier E now st) \<noteq> None"
  using detectApiTier_sets_tier [of E now st] by (auto simp: ensureTier_def)

lemma ensureTier_known: "apiTier st \<noteq> None \<Longrightarrow> ensureTier E now st = st"
  by (auto simp: ensureTier_def)

lemma ensureTier_cache: "cache (ensureTier E now st) = cache st"
  by (simp add: ensureTier_def detectApiTier_cache)

lemma ensureTier_apiKey: "apiKey (ensureTier E now st) = apiKey st"
  by (simp add: ensureTier_def detectApiTier_apiKey)

lemma ensureTier_calls:
  "calls (ensureTier E now st) = calls st \<or>
   calls (ensureTier E now st) = calls st @ [(probe_url, authorization st, [(''limit'', JNum 1)])]"
  using detectApiTier_calls [of E now st] by (auto simp: ensureTier_def)

lemma canAccessEndpoint_snd: "snd (canAccessEndpoint E now endpoint st) = ensureTier E now st"
  by (simp add: canAccessEndpoint_def Let_def)

text \<open>
  C4. \<open>canAccessEndpoint\<close> first makes sure a tier is known (afterwards one always is, and a
  tier already known leaves the state as it was). On the tier then memoized: \<open>Paid\<close> gives
  true for every path, \<open>Invalid\<close> and \<open>Unknown\<close> give false for every path, and \<open>Free\<close> gives
  true exactly for the three free templates matched from the first character to the last:
  \<open>/public/topic/<topic>/v1\<close> with a non-empty \<open><topic>\<close> free of slashes,
  \<open>/public/coins/list/v1\<close> and \<open>/public/categories/list/v1\<close>.
\<close>

theorem canAccessEndpoint_contract:
  "(apiTier (ensureTier E now st) = Some Paid \<longrightarrow>
      canAccessEndpoint E now endpoint st = (True, ensureTier E now st)) \<and>
   (apiTier (ensureTier E now st) = Some Invalid \<or> apiTier (ensureTier E now st) = Some Unknown \<longrightarrow>
      canAccessEndpoint E now endpoint st = (False, ensureTier E now st)) \<and>
   (apiTier (ensureTier E now st) = Some Free \<longrightarrow>
      canAccessEndpoint E now endpoint st =
        ((\<exists>topic. topic \<noteq> [] \<and> CHR ''/'' \<notin> set topic \<and>
             endpoint = ''/public/topic/'' @ topic @ ''/v1'') \<or>
         endpoint = ''/public/coins/list/v1'' \<or>
         endpoint = ''/public/categories/list/v1'',
         ensureTier E now st)) \<and>
   (\<exists>t. apiTier (ensureTier E now st) = Some t) \<and>
   (apiTier st \<noteq> None \<longrightarrow> ensureTier E now st = st)"
proof -
  have "\<exists>t. apiTier (ensureTier E now st) = Some t"
    using ensureTier_tier [of E now st] by auto
  then show ?thesis
    by (auto simp: canAccessEndpoint_def Let_def free_endpoints_match ensureTier_known)
qed

theorem canAccessEndpoint_contract_witness:
  "canAccessEndpoint (stub_env (\<lambda>n. Resolved 200 JNull)) 2000 ''/public/coins/bitcoin/v1''
      (detected_adapter Paid) = (True, detected_adapter Paid) \<and>
   canAccessEndpoint (stub_env (\<lambda>n. Resolved 200 JNull)) 2000 ''/public/topic/bitcoin/v1''
      (detected_adapter Invalid) = (False, detected_adapter Invalid) \<and>
   canAccessEndpoint (stub_env (\<lambda>n. Resolved 200 JNull)) 2000 ''/public/topic/bitcoin/v1''
      (detected_adapter Free) = (True, detected_adapter Free) \<and>
   canAccessEndpoint (stub_env (\<lambda>n. Resolved 200 JNull)) 2000 ''/public/topic/bitcoin/v1/x''
      (detected_adapter Free) = (False, detected_adapter Free)"
proof -
  let ?E = "stub_env (\<lambda>n. Resolved 200 JNull)"
  have k: "ensureTier ?E 2000 (detected_adapter t) = detected_adapter t" for t
    by (simp add: ensureTier_def detected_adapter_def)
  have t: "apiTier (detected_adapter t) = Some t" for t
    by (simp add: detected_adapter_def)
  have a: "canAccessEndpoint ?E 2000 ''/public/coins/bitcoin/v1'' (detected_adapter Paid)
      = (True, detected_adapter Paid)"
    using canAccessEndpoint_contract [of ?E 2000 "detected_adapter Paid"
        "''/public/coins/bitcoin/v1''", THEN conjunct1]
    by (simp add: k t)
  have b: "canAccessEndpoint ?E 2000 ''/public/topic/bitcoin/v1'' (detected_adapter Invalid)
      = (False, detected_adapter Invalid)"
    using canAccessEndpoint_contract [of ?E 2000 "detected_adapter Invalid"
        "''/public/topic/bitcoin/v1''", THEN conjunct2, THEN conjunct1]
    by (simp add: k t)
  have m: "\<exists>topic. topic \<noteq> [] \<and> CHR ''/'' \<notin> set topic \<and>
      ''/public/topic/bitcoin/v1'' = ''/public/topic/'' @ topic @ ''/v1''"
    by (rule exI [of _ "''bitcoin''"]) simp
  have c: "canAccessEndpoint ?E 2000 ''/public/topic/bitcoin/v1'' (detected_adapter Free)
      = (True, detected_adapter Free)"
    using canAccessEndpoint_contract [of ?E 2000 "detected_adapter Free"
        "''/public/topic/bitcoin/v1''", THEN conjunct2, THEN conjunct2, THEN conjunct1] m
    by (simp add: k t)
  have n: "\<not> (\<exists>topic. topic \<noteq> [] \<and> CHR ''/'' \<notin> set topic \<and>
      ''/public/topic/bitcoin/v1/x'' = ''/public/topic/'' @ topic @ ''/v1'')"
  proof
    assume "\<exists>topic. topic \<noteq> [] \<and> CHR ''/'' \<notin> set topic \<and>
      ''/public/topic/bitcoin/v1/x'' = ''/public/topic/'' @ topic @ ''/v1''"
    then obtain topic where *: "CHR ''/'' \<notin> set topic" "''bitcoin/v1/x'' = topic @ ''/v1''"
      by auto
    from *(2) have "length (''bitcoin/v1/x''::string) = length (topic @ ''/v1'')"
      by (rule arg_cong)
    then have l: "length topic = 9" by simp
    have "take (length topic) (topic @ ''/v1'') = topic" by simp
    with *(2) [symmetric] l have "topic = take 9 ''bitcoin/v1/x''" by simp
    with *(1) show False by simp
  qed
  have d: "canAccessEndpoint ?E 2000 ''/public/topic/bitcoin/v1/x'' (detected_adapter Free)
      = (False, detected_adapter Free)"
    using canAccessEndpoint_contract [of ?E 2000 "detected_adapter Free"
        "''/public/topic/bitcoin/v1/x''", THEN conjunct2, THEN conjunct2, THEN conjunct1] n
    by (simp add: k t)
  from a b c d show ?thesis by (simp only: simp_thms)
qed

section \<open>Properties of the request pipeline\<close>

lemma canAccessEndpoint_eq:
  "canAccessEndpoint E now endpoint st =
     (fst (canAccessEndpoint E now endpoint st), ensureTier E now st)"
  by (metis canAccessEndpoint_snd prod.collapse)

lemma canAccessEndpoint_denied:
  "apiTier (ensureTier E now st) = Some Invalid \<or> apiTier (ensureTier E now st) = Some Unknown
     \<Longrightarrow> \<not> fst (canAccessEndpoint E now endpoint st)"
  by (auto simp: canAccessEndpoint_def Let_def)

lemma canAccessEndpoint_granted_tier:
  "fst (canAccessEndpoint E now endpoint st) \<Longrightarrow>
     apiTier (ensureTier E now st) = Some Paid \<or> apiTier (ensureTier E now st) = Some Free"
  using ensureTier_tier [of E now st]
  by (cases "apiTier (ensureTier E now st)"; cases "the (apiTier (ensureTier E now st))")
     (auto simp: canAccessEndpoint_def Let_def)

lemma free_variant_is_leaf: "\<not> str_includes ''/public/coins/list/v1'' ''/coins/list/v2''"
  by simp

lemma free_variant_granted:
  assumes "apiTier st = Some Paid \<or> apiTier st = Some Free"
  shows "canAccessEndpoint E now ''/public/coins/list/v1'' st = (True, st)"
proof -
  from assms have k: "ensureTier E now st = st"
    by (auto simp: ensureTier_known)
  from assms show ?thesis
    unfolding canAccessEndpoint_def Let_def k free_endpoints_match by auto
qed

lemma http_logged_fields:
  "cache (http_logged url ps st) = cache st"
  "apiTier (http_logged url ps st) = apiTier st"
  "apiKey (http_logged url ps st) = apiKey st"
  "calls (http_logged url ps st) = calls st @ [(url, authorization st, ps)]"
  by (simp_all add: http_logged_def)

lemma getFallbackData_leaf:
  "\<not> str_includes endpoint ''/coins/list/v2'' \<Longrightarrow>
     getFallbackData E now endpoint ps st = (Inr (mock_envelope E endpoint ps), st)"
  by (simp add: getFallbackData.simps)

lemma getFallbackData_variant:
  "str_includes endpoint ''/coins/list/v2'' \<Longrightarrow>
     getFallbackData E now endpoint ps st =
       (case makeRequest E now ''/public/coins/list/v1'' ps st of
          (Inr r, st1) \<Rightarrow> (Inr r, st1)
        | (Inl e, st1) \<Rightarrow> (Inr (mock_envelope E endpoint ps), st1))"
  by (simp add: getFallbackData.simps)

lemma getFallbackData_returns: "\<exists>r st'. getFallbackData E now endpoint ps st = (Inr r, st')"
  by (cases "str_includes endpoint ''/coins/list/v2''")
     (auto simp: getFallbackData_leaf getFallbackData_variant split: prod.splits sum.splits)

lemma makeRequest_hit:
  "truthy (cache_get E now (cache st) (cacheKey E endpoint ps)) \<Longrightarrow>
     makeRequest E now endpoint ps st = (Inr (cache_get E now (cache st) (cacheKey E endpoint ps)), st)"
  by (simp add: makeRequest.simps Let_def)

lemma makeRequest_denied:
  "\<not> truthy (cache_get E now (cache st) (cacheKey E endpoint ps)) \<Longrightarrow>
   \<not> fst (canAccessEndpoint E now endpoint st) \<Longrightarrow>
     makeRequest E now endpoint ps st = getFallbackData E now endpoint ps (ensureTier E now st)"
  by (subst makeRequest.simps, subst canAccessEndpoint_eq) (simp add: Let_def)

lemma makeRequest_granted:
  "\<not> truthy (cache_get E now (cache st) (cacheKey E endpoint ps)) \<Longrightarrow>
   fst (canAccessEndpoint E now endpoint st) \<Longrightarrow>
     makeRequest E now endpoint ps st =
       (case http_response E (baseUrl @ endpoint) ps (ensureTier E now st) of
          Resolved s d \<Rightarrow>
            (Inr d, (http_logged (baseUrl @ endpoint) ps (ensureTier E now st))
                      \<lparr>cache := cache_set now (cache st) (cacheKey E endpoint ps) d\<rparr>)
        | Rejected err \<Rightarrow>
            if status err = Some 402 \<or> status err = Some 429
            then getFallbackData E now endpoint ps
                   (http_logged (baseUrl @ endpoint) ps (ensureTier E now st))
            else (Inl (Transport err), http_logged (baseUrl @ endpoint) ps (ensureTier E now st)))"
  by (subst makeRequest.simps, subst canAccessEndpoint_eq)
     (simp add: Let_def http_get_def http_logged_fields ensureTier_cache split: http_result.splits)

lemma makeRequest_free_variant_denied:
  assumes "apiTier st = Some Invalid \<or> apiTier st = Some Unknown"
  shows "makeRequest E now ''/public/coins/list/v1'' ps st =
     (Inr (if truthy (cache_get E now (cache st) (cacheKey E ''/public/coins/list/v1'' ps))
           then cache_get E now (cache st) (cacheKey E ''/public/coins/list/v1'' ps)
           else mock_envelope E ''/public/coins/list/v1'' ps), st)"
proof (cases "truthy (cache_get E now (cache st) (cacheKey E ''/public/coins/list/v1'' ps))")
  case True
  then show ?thesis by (simp add: makeRequest_hit)
next
  case False
  from assms have k: "ensureTier E now st = st"
    by (auto simp: ensureTier_known)
  with assms have "\<not> fst (canAccessEndpoint E now ''/public/coins/list/v1'' st)"
    by (simp add: canAccessEndpoint_denied)
  with False k show ?thesis
    by (simp add: makeRequest_denied getFallbackData_leaf)
qed

text \<open>
  C1, as stated, fails: a denied request does not fail, it is answered by the fallback.
  With no credential, an empty cache and a topic path, the call returns the mock envelope
  and issues no GET.
\<close>

theorem makeRequest_denied_counterexample:
  "makeRequest (stub_env (\<lambda>n. Rejected (HttpError None ''unreachable''))) 2000
      ''/public/topic/bitcoin/v1'' [] (fresh_adapter None) =
     (Inr (JObj [(''data'', JObj [(''topic'', JStr ''bitcoin'')]),
                 (''meta'', JObj [(''using_mock_data'', JBool True),
                                  (''original_endpoint'', JStr ''/public/topic/bitcoin/v1'')])]),
      (fresh_adapter None)\<lparr>apiTier := Some Invalid\<rparr>)"
proof -
  let ?E = "stub_env (\<lambda>n. Rejected (HttpError None ''unreachable''))"
  have t: "ensureTier ?E 2000 (fresh_adapter None) = (fresh_adapter None)\<lparr>apiTier := Some Invalid\<rparr>"
    by (simp add: ensureTier_def detectApiTier_def memoized_def has_key_def fresh_adapter_def)
  have m: "\<not> truthy (cache_get ?E 2000 (cache (fresh_adapter None))
      (cacheKey ?E ''/public/topic/bitcoin/v1'' []))"
    by (simp add: fresh_adapter_def cache_get_def)
  have d: "\<not> fst (canAccessEndpoint ?E 2000 ''/public/topic/bitcoin/v1'' (fresh_adapter None))"
    by (rule canAccessEndpoint_denied) (simp add: t)
  have e: "mock_envelope ?E ''/public/topic/bitcoin/v1'' [] =
      JObj [(''data'', JObj [(''topic'', JStr ''bitcoin'')]),
            (''meta'', JObj [(''using_mock_data'', JBool True),
                             (''original_endpoint'', JStr ''/public/topic/bitcoin/v1'')])]"
    by (simp add: mock_envelope_def getMockData_def stub_env_def slice_m2_0_def)
  show ?thesis
    by (simp only: makeRequest_denied [OF m d] t) (simp add: getFallbackData_leaf e)
qed

text \<open>
  C1, amended. When the cache misses and the tier, once detected, is \<open>Invalid\<close> or \<open>Unknown\<close>,
  the request does not fail and no GET is issued for it (the state it leaves is the one the
  tier check left): it returns the mock envelope recording the endpoint, or, for a path
  containing \<open>/coins/list/v2\<close>, what the pipeline gives for the free variant
  \<open>/public/coins/list/v1\<close>: its cached value if there is one, else the mock envelope
  recording the free variant.
\<close>

theorem makeRequest_denied_falls_back:
  "\<not> truthy (cache_get E now (cache st) (cacheKey E endpoint ps)) \<and>
   (apiTier (ensureTier E now st) = Some Invalid \<or> apiTier (ensureTier E now st) = Some Unknown)
   \<longrightarrow>
     makeRequest E now endpoint ps st =
       (Inr (if str_includes endpoint ''/coins/list/v2''
             then (if truthy (cache_get E now (cache st) (cacheKey E ''/public/coins/list/v1'' ps))
                   then cache_get E now (cache st) (cacheKey E ''/public/coins/list/v1'' ps)
                   else mock_envelope E ''/public/coins/list/v1'' ps)
             else mock_envelope E endpoint ps),
        ensureTier E now st) \<and>
     meta_using_mock_data (mock_envelope E endpoint ps) \<and>
     meta_using_mock_data (mock_envelope E ''/public/coins/list/v1'' ps)"
proof (intro impI, elim conjE)
  assume miss: "\<not> truthy (cache_get E now (cache st) (cacheKey E endpoint ps))"
    and tier: "apiTier (ensureTier E now st) = Some Invalid \<or>
               apiTier (ensureTier E now st) = Some Unknown"
  have d: "\<not> fst (canAccessEndpoint E now endpoint st)"
    using tier by (rule canAccessEndpoint_denied)
  have m: "meta_using_mock_data (mock_envelope E e ps)" for e
    by (simp add: meta_using_mock_data_def mock_envelope_def get_prop_def)
  have "makeRequest E now endpoint ps st =
       (Inr (if str_includes endpoint ''/coins/list/v2''
             then (if truthy (cache_get E now (cache st) (cacheKey E ''/public/coins/list/v1'' ps))
                   then cache_get E now (cache st) (cacheKey E ''/public/coins/list/v1'' ps)
                   else mock_envelope E ''/public/coins/list/v1'' ps)
             else mock_envelope E endpoint ps),
        ensureTier E now st)"
  proof (cases "str_includes endpoint ''/coins/list/v2''")
    case True
    then show ?thesis
      by (simp add: makeRequest_denied [OF miss d] getFallbackData_variant
          makeRequest_free_variant_denied [OF tier] ensureTier_cache)
  next
    case False
    then show ?thesis
      by (simp add: makeRequest_denied [OF miss d] getFallbackData_leaf)
  qed
  with m show "makeRequest E now endpoint ps st =
       (Inr (if str_includes endpoint ''/coins/list/v2''
             then (if truthy (cache_get E now (cache st) (cacheKey E ''/public/coins/list/v1'' ps))
                   then cache_get E now (cache st) (cacheKey E ''/public/coins/list/v1'' ps)
                   else mock_envelope E ''/public/coins/list/v1'' ps)
             else mock_envelope E endpoint ps),
        ensureTier E now st) \<and>
     meta_using_mock_data (mock_envelope E endpoint ps) \<and>
     meta_using_mock_data (mock_envelope E ''/public/coins/list/v1'' ps)" by simp
qed

theorem makeRequest_denied_falls_back_witness:
  "makeRequest (stub_env (\<lambda>n. Rejected (HttpError None ''unreachable''))) 2000
      ''/public/coins/list/v2'' [(''limit'', JNum 50)] (fresh_adapter None) =
     (Inr (mock_envelope (stub_env (\<lambda>n. Rejected (HttpError None ''unreachable'')))
             ''/public/coins/list/v1'' [(''limit'', JNum 50)]),
      (fresh_adapter None)\<lparr>apiTier := Some Invalid\<rparr>)"
proof -
  let ?E = "stub_env (\<lambda>n. Rejected (HttpError None ''unreachable''))"
  have t: "ensureTier ?E 2000 (fresh_adapter None) = (fresh_adapter None)\<lparr>apiTier := Some Invalid\<rparr>"
    by (simp add: ensureTier_def detectApiTier_def memoized_def has_key_def fresh_adapter_def)
  have h: "\<not> truthy (cache_get ?E 2000 (cache (fresh_adapter None))
        (cacheKey ?E ''/public/coins/list/v2'' [(''limit'', JNum 50)])) \<and>
      (apiTier (ensureTier ?E 2000 (fresh_adapter None)) = Some Invalid \<or>
       apiTier (ensureTier ?E 2000 (fresh_adapter None)) = Some Unknown)"
    by (simp add: t) (simp add: fresh_adapter_def cache_get_def)
  have c: "\<not> truthy (cache_get ?E 2000 (cache (fresh_adapter None))
        (cacheKey ?E ''/public/coins/list/v1'' [(''limit'', JNum 50)]))"
    by (simp add: fresh_adapter_def cache_get_def)
  show ?thesis
    using makeRequest_denied_falls_back [of ?E 2000 "fresh_adapter None" "''/public/coins/list/v2''"
        "[(''limit'', JNum 50)]", THEN mp, OF h, THEN conjunct1] c
    by (simp add: t)
qed

lemma makeRequest_free_variant_granted:
  assumes "apiTier st = Some Paid \<or> apiTier st = Some Free"
  shows "makeRequest E now ''/public/coins/list/v1'' ps st =
     (if truthy (cache_get E now (cache st) (cacheKey E ''/public/coins/list/v1'' ps))
      then (Inr (cache_get E now (cache st) (cacheKey E ''/public/coins/list/v1'' ps)), st)
      else (case http_response E (baseUrl @ ''/public/coins/list/v1'') ps st of
              Resolved s d \<Rightarrow>
                (Inr d, (http_logged (baseUrl @ ''/public/coins/list/v1'') ps st)
                          \<lparr>cache := cache_set now (cache st) (cacheKey E ''/public/coins/list/v1'' ps) d\<rparr>)
            | Rejected err \<Rightarrow>
                if status err = Some 402 \<or> status err = Some 429
                then (Inr (mock_envelope E ''/public/coins/list/v1'' ps),
                      http_logged (baseUrl @ ''/public/coins/list/v1'') ps st)
                else (Inl (Transport err),
                      http_logged (baseUrl @ ''/public/coins/list/v1'') ps st)))"
proof (cases "truthy (cache_get E now (cache st) (cacheKey E ''/public/coins/list/v1'' ps))")
  case True
  then show ?thesis by (simp add: makeRequest_hit)
next
  case False
  from assms have k: "ensureTier E now st = st"
    by (auto simp: ensureTier_known)
  have g: "fst (canAccessEndpoint E now ''/public/coins/list/v1'' st)"
    by (simp add: free_variant_granted [OF assms])
  show ?thesis
    by (simp add: False makeRequest_granted [OF False g] k getFallbackData_leaf
        split: http_result.splits)
qed

text \<open>
  C2, as stated, fails where the endpoint has a free variant: after a 429 on
  \<open>/public/coins/list/v2\<close> the pipeline asks for \<open>/public/coins/list/v1\<close>, and when that
  request succeeds its body is what the caller gets, not the mock envelope. When that
  request meets a 429 as well, the envelope returned records the free variant, not the
  original endpoint.
\<close>

theorem makeRequest_free_variant_counterexample:
  "fst (makeRequest
      (stub_env (\<lambda>n. if n = 0 then Rejected (HttpError (Some 429) ''Too Many Requests'')
                      else Resolved 200 (JObj [(''data'', JArr [])])))
      2000 ''/public/coins/list/v2'' [(''limit'', JNum 50)] (detected_adapter Paid)) =
     Inr (JObj [(''data'', JArr [])]) \<and>
   \<not> meta_using_mock_data (JObj [(''data'', JArr [])]) \<and>
   fst (makeRequest (stub_env (\<lambda>n. Rejected (HttpError (Some 429) ''Too Many Requests'')))
      2000 ''/public/coins/list/v2'' [(''limit'', JNum 50)] (detected_adapter Paid)) =
     Inr (JObj [(''data'', JArr []),
                (''meta'', JObj [(''using_mock_data'', JBool True),
                                 (''original_endpoint'', JStr ''/public/coins/list/v1'')])])"
proof -
  let ?E = "stub_env (\<lambda>n. if n = 0 then Rejected (HttpError (Some 429) ''Too Many Requests'')
                      else Resolved 200 (JObj [(''data'', JArr [])]))"
  let ?B = "stub_env (\<lambda>n. Rejected (HttpError (Some 429) ''Too Many Requests''))"
  let ?st = "detected_adapter Paid"
  let ?ps = "[(''limit'', JNum 50)]"
  have k: "ensureTier E 2000 ?st = ?st" for E
    by (simp add: ensureTier_def detected_adapter_def)
  have m: "\<not> truthy (cache_get E 2000 (cache ?st) (cacheKey E ''/public/coins/list/v2'' ?ps))" for E
    by (simp add: detected_adapter_def cache_get_def)
  have g: "fst (canAccessEndpoint E 2000 ''/public/coins/list/v2'' ?st)" for E
    by (simp add: canAccessEndpoint_def Let_def k) (simp add: detected_adapter_def)
  have r0: "http_response ?E (baseUrl @ ''/public/coins/list/v2'') ?ps ?st =
      Rejected (HttpError (Some 429) ''Too Many Requests'')"
    by (simp add: http_response_def stub_env_def detected_adapter_def)
  let ?st2 = "http_logged (baseUrl @ ''/public/coins/list/v2'') ?ps ?st"
  have t2: "apiTier ?st2 = Some Paid \<or> apiTier ?st2 = Some Free"
    by (simp add: http_logged_fields detected_adapter_def)
  have m1: "\<not> truthy (cache_get E 2000 (cache ?st2) (cacheKey E ''/public/coins/list/v1'' ?ps))" for E
    by (simp add: http_logged_fields detected_adapter_def cache_get_def)
  have r1: "http_response ?E (baseUrl @ ''/public/coins/list/v1'') ?ps ?st2 =
      Resolved 200 (JObj [(''data'', JArr [])])"
    by (simp add: http_response_def stub_env_def http_logged_fields detected_adapter_def)
  have a: "fst (makeRequest ?E 2000 ''/public/coins/list/v2'' ?ps ?st) =
      Inr (JObj [(''data'', JArr [])])"
    by (simp add: makeRequest_granted [OF m g] k r0 getFallbackData_variant
        makeRequest_free_variant_granted [OF t2] m1 r1)
  have b: "\<not> meta_using_mock_data (JObj [(''data'', JArr [])])"
    by (simp add: meta_using_mock_data_def get_prop_def)
  have rb: "http_response ?B url ?ps s = Rejected (HttpError (Some 429) ''Too Many Requests'')"
    for url s
    by (simp add: http_response_def stub_env_def)
  have e: "mock_envelope ?B ''/public/coins/list/v1'' ?ps =
      JObj [(''data'', JArr []),
            (''meta'', JObj [(''using_mock_data'', JBool True),
                             (''original_endpoint'', JStr ''/public/coins/list/v1'')])]"
    by (simp add: mock_envelope_def getMockData_def stub_env_def)
  have c: "fst (makeRequest ?B 2000 ''/public/coins/list/v2'' ?ps ?st) =
      Inr (JObj [(''data'', JArr []),
                 (''meta'', JObj [(''using_mock_data'', JBool True),
                                  (''original_endpoint'', JStr ''/public/coins/list/v1'')])])"
    by (simp add: makeRequest_granted [OF m g] k rb getFallbackData_variant
        makeRequest_free_variant_granted [OF t2] m1 e)
  from a b c show ?thesis by (simp only: simp_thms)
qed

text \<open>
  C2, amended. For a request that reaches the network (cache miss, access granted), with
  \<open>res\<close> the outcome of its GET: the pipeline raises if and only if \<open>res\<close> is a failure
  whose status is neither 402 nor 429, and what it raises is that transport error. On
  402 or 429 it does not raise. If the path has no free variant it returns the mock
  envelope, marked \<open>using_mock_data\<close> and recording the endpoint. If the path contains
  \<open>/coins/list/v2\<close> it returns what the pipeline gives for \<open>/public/coins/list/v1\<close>: the
  cached value, or the body of a successful GET (which is cached), or on a 402 or 429 the
  mock envelope recording the free variant; and the mock envelope recording the original
  endpoint when that second GET fails otherwise.
\<close>

theorem makeRequest_transport_outcomes:
  "\<not> truthy (cache_get E now (cache st) (cacheKey E endpoint ps)) \<and>
   fst (canAccessEndpoint E now endpoint st) \<and>
   res = http_response E (baseUrl @ endpoint) ps (ensureTier E now st) \<and>
   st2 = http_logged (baseUrl @ endpoint) ps (ensureTier E now st)
   \<longrightarrow>
     ((\<exists>e. fst (makeRequest E now endpoint ps st) = Inl e) \<longleftrightarrow>
        (\<exists>err. res = Rejected err \<and> status err \<noteq> Some 402 \<and> status err \<noteq> Some 429)) \<and>
     (\<forall>err. res = Rejected err \<and> status err \<noteq> Some 402 \<and> status err \<noteq> Some 429 \<longrightarrow>
        makeRequest E now endpoint ps st = (Inl (Transport err), st2)) \<and>
     (\<forall>err. res = Rejected err \<and> (status err = Some 402 \<or> status err = Some 429) \<longrightarrow>
        (\<not> str_includes endpoint ''/coins/list/v2'' \<longrightarrow>
           makeRequest E now endpoint ps st = (Inr (mock_envelope E endpoint ps), st2)) \<and>
        (str_includes endpoint ''/coins/list/v2'' \<longrightarrow>
           makeRequest E now endpoint ps st =
             (if truthy (cache_get E now (cache st) (cacheKey E ''/public/coins/list/v1'' ps))
              then (Inr (cache_get E now (cache st) (cacheKey E ''/public/coins/list/v1'' ps)), st2)
              else (case http_response E (baseUrl @ ''/public/coins/list/v1'') ps st2 of
                      Resolved s d \<Rightarrow>
                        (Inr d, (http_logged (baseUrl @ ''/public/coins/list/v1'') ps st2)
                           \<lparr>cache := cache_set now (cache st)
                                        (cacheKey E ''/public/coins/list/v1'' ps) d\<rparr>)
                    | Rejected err' \<Rightarrow>
                        (Inr (if status err' = Some 402 \<or> status err' = Some 429
                              then mock_envelope E ''/public/coins/list/v1'' ps
                              else mock_envelope E endpoint ps),
                         http_logged (baseUrl @ ''/public/coins/list/v1'') ps st2))))) \<and>
     meta_using_mock_data (mock_envelope E endpoint ps) \<and>
     mock_envelope E endpoint ps =
       JObj [(''data'', getMockData E endpoint ps),
             (''meta'', JObj [(''using_mock_data'', JBool True),
                              (''original_endpoint'', JStr endpoint)])]"
proof (intro impI, elim conjE)
  assume miss: "\<not> truthy (cache_get E now (cache st) (cacheKey E endpoint ps))"
    and granted: "fst (canAccessEndpoint E now endpoint st)"
    and res: "res = http_response E (baseUrl @ endpoint) ps (ensureTier E now st)"
    and st2: "st2 = http_logged (baseUrl @ endpoint) ps (ensureTier E now st)"
  note mr = makeRequest_granted [OF miss granted, folded res st2]
  have t2: "apiTier st2 = Some Paid \<or> apiTier st2 = Some Free"
    using canAccessEndpoint_granted_tier [OF granted] by (simp add: st2 http_logged_fields)
  have c2: "cache st2 = cache st"
    by (simp add: st2 http_logged_fields ensureTier_cache)
  have fb: "\<exists>r st'. getFallbackData E now endpoint ps st2 = (Inr r, st')"
    by (rule getFallbackData_returns)
  have a: "(\<exists>e. fst (makeRequest E now endpoint ps st) = Inl e) \<longleftrightarrow>
        (\<exists>err. res = Rejected err \<and> status err \<noteq> Some 402 \<and> status err \<noteq> Some 429)"
    using fb by (cases res) (auto simp: mr)
  have b: "\<forall>err. res = Rejected err \<and> status err \<noteq> Some 402 \<and> status err \<noteq> Some 429 \<longrightarrow>
        makeRequest E now endpoint ps st = (Inl (Transport err), st2)"
    by (simp add: mr)
  have c: "\<forall>err. res = Rejected err \<and> (status err = Some 402 \<or> status err = Some 429) \<longrightarrow>
        (\<not> str_includes endpoint ''/coins/list/v2'' \<longrightarrow>
           makeRequest E now endpoint ps st = (Inr (mock_envelope E endpoint ps), st2))"
    by (auto simp: mr getFallbackData_leaf)
  have d: "\<forall>err. res = Rejected err \<and> (status err = Some 402 \<or> status err = Some 429) \<longrightarrow>
        (str_includes endpoint ''/coins/list/v2'' \<longrightarrow>
           makeRequest E now endpoint ps st =
             (if truthy (cache_get E now (cache st) (cacheKey E ''/public/coins/list/v1'' ps))
              then (Inr (cache_get E now (cache st) (cacheKey E ''/public/coins/list/v1'' ps)), st2)
              else (case http_response E (baseUrl @ ''/public/coins/list/v1'') ps st2 of
                      Resolved s d \<Rightarrow>
                        (Inr d, (http_logged (baseUrl @ ''/public/coins/list/v1'') ps st2)
                           \<lparr>cache := cache_set now (cache st)
                                        (cacheKey E ''/public/coins/list/v1'' ps) d\<rparr>)
                    | Rejected err' \<Rightarrow>
                        (Inr (if status err' = Some 402 \<or> status err' = Some 429
                              then mock_envelope E ''/public/coins/list/v1'' ps
                              else mock_envelope E endpoint ps),
                         http_logged (baseUrl @ ''/public/coins/list/v1'') ps st2))))"
    by (auto simp: mr getFallbackData_variant makeRequest_free_variant_granted [OF t2] c2
        split: http_result.splits)
  have e: "meta_using_mock_data (mock_envelope E endpoint ps)"
    by (simp add: meta_using_mock_data_def mock_envelope_def get_prop_def)
  have f: "mock_envelope E endpoint ps =
       JObj [(''data'', getMockData E endpoint ps),
             (''meta'', JObj [(''using_mock_data'', JBool True),
                              (''original_endpoint'', JStr endpoint)])]"
    by (simp add: mock_envelope_def)
  from a b c d e f show
    "((\<exists>e. fst (makeRequest E now endpoint ps st) = Inl e) \<longleftrightarrow>
        (\<exists>err. res = Rejected err \<and> status err \<noteq> Some 402 \<and> status err \<noteq> Some 429)) \<and>
     (\<forall>err. res = Rejected err \<and> status err \<noteq> Some 402 \<and> status err \<noteq> Some 429 \<longrightarrow>
        makeRequest E now endpoint ps st = (Inl (Transport err), st2)) \<and>
     (\<forall>err. res = Rejected err \<and> (status err = Some 402 \<or> status err = Some 429) \<longrightarrow>
        (\<not> str_includes endpoint ''/coins/list/v2'' \<longrightarrow>
           makeRequest E now endpoint ps st = (Inr (mock_envelope E endpoint ps), st2)) \<and>
        (str_includes endpoint ''/coins/list/v2'' \<longrightarrow>
           makeRequest E now endpoint ps st =
             (if truthy (cache_get E now (cache st) (cacheKey E ''/public/coins/list/v1'' ps))
              then (Inr (cache_get E now (cache st) (cacheKey E ''/public/coins/list/v1'' ps)), st2)
              else (case http_response E (baseUrl @ ''/public/coins/list/v1'') ps st2 of
                      Resolved s d \<Rightarrow>
                        (Inr d, (http_logged (baseUrl @ ''/public/coins/list/v1'') ps st2)
                           \<lparr>cache := cache_set now (cache st)
                                        (cacheKey E ''/public/coins/list/v1'' ps) d\<rparr>)
                    | Rejected err' \<Rightarrow>
                        (Inr (if status err' = Some 402 \<or> status err' = Some 429
                              then mock_envelope E ''/public/coins/list/v1'' ps
                              else mock_envelope E endpoint ps),
                         http_logged (baseUrl @ ''/public/coins/list/v1'') ps st2))))) \<and>
     meta_using_mock_data (mock_envelope E endpoint ps) \<and>
     mock_envelope E endpoint ps =
       JObj [(''data'', getMockData E endpoint ps),
             (''meta'', JObj [(''using_mock_data'', JBool True),
                              (''original_endpoint'', JStr endpoint)])]"
    by blast
qed

theorem makeRequest_transport_outcomes_witness:
  "makeRequest (stub_env (\<lambda>n. Rejected (HttpError (Some 429) ''Too Many Requests''))) 2000
      ''/public/topic/bitcoin/v1'' [] (detected_adapter Paid) =
     (Inr (mock_envelope (stub_env (\<lambda>n. Rejected (HttpError (Some 429) ''Too Many Requests'')))
             ''/public/topic/bitcoin/v1'' []),
      http_logged (baseUrl @ ''/public/topic/bitcoin/v1'') [] (detected_adapter Paid)) \<and>
   makeRequest (stub_env (\<lambda>n. Rejected (HttpError (Some 500) ''Server Error''))) 2000
      ''/public/topic/bitcoin/v1'' [] (detected_adapter Paid) =
     (Inl (Transport (HttpError (Some 500) ''Server Error'')),
      http_logged (baseUrl @ ''/public/topic/bitcoin/v1'') [] (detected_adapter Paid))"
proof -
  let ?st = "detected_adapter Paid"
  let ?ep = "''/public/topic/bitcoin/v1''"
  have k: "ensureTier E 2000 ?st = ?st" for E
    by (simp add: ensureTier_def detected_adapter_def)
  have m: "\<not> truthy (cache_get E 2000 (cache ?st) (cacheKey E ?ep []))" for E
    by (simp add: detected_adapter_def cache_get_def)
  have g: "fst (canAccessEndpoint E 2000 ?ep ?st)" for E
    by (simp add: canAccessEndpoint_def Let_def k) (simp add: detected_adapter_def)
  have h: "\<not> truthy (cache_get E 2000 (cache ?st) (cacheKey E ?ep [])) \<and>
      fst (canAccessEndpoint E 2000 ?ep ?st) \<and>
      http_response E (baseUrl @ ?ep) [] ?st = http_response E (baseUrl @ ?ep) [] (ensureTier E 2000 ?st) \<and>
      http_logged (baseUrl @ ?ep) [] ?st = http_logged (baseUrl @ ?ep) [] (ensureTier E 2000 ?st)" for E
    using m g by (simp add: k)
  let ?busy = "stub_env (\<lambda>n. Rejected (HttpError (Some 429) ''Too Many Requests''))"
  let ?down = "stub_env (\<lambda>n. Rejected (HttpError (Some 500) ''Server Error''))"
  have r1: "http_response ?busy (baseUrl @ ?ep) [] ?st =
      Rejected (HttpError (Some 429) ''Too Many Requests'')"
    by (simp add: http_response_def stub_env_def)
  have r2: "http_response ?down (baseUrl @ ?ep) [] ?st =
      Rejected (HttpError (Some 500) ''Server Error'')"
    by (simp add: http_response_def stub_env_def)
  have l: "\<not> str_includes ?ep ''/coins/list/v2''"
    by simp
  have a: "makeRequest ?busy 2000 ?ep [] ?st =
      (Inr (mock_envelope ?busy ?ep []), http_logged (baseUrl @ ?ep) [] ?st)"
    using makeRequest_transport_outcomes [of ?busy 2000 ?st ?ep "[]"
        "http_response ?busy (baseUrl @ ?ep) [] ?st" "http_logged (baseUrl @ ?ep) [] ?st",
        THEN mp, OF h, THEN conjunct2, THEN conjunct2, THEN conjunct1] r1 l
    by simp
  have b: "makeRequest ?down 2000 ?ep [] ?st =
      (Inl (Transport (HttpError (Some 500) ''Server Error'')), http_logged (baseUrl @ ?ep) [] ?st)"
    using makeRequest_transport_outcomes [of ?down 2000 ?st ?ep "[]"
        "http_response ?down (baseUrl @ ?ep) [] ?st" "http_logged (baseUrl @ ?ep) [] ?st",
        THEN mp, OF h, THEN conjunct2, THEN conjunct1] r2
    by simp
  from a b show ?thesis by (simp only: simp_thms)
qed

lemma authorization_ensureTier: "authorization (ensureTier E now st) = authorization st"
  by (simp add: authorization_def ensureTier_apiKey)

lemma entry_live_earlier:
  "entry_live E now' k e \<Longrightarrow> now \<le> now' \<Longrightarrow> entry_live E now k e"
  by (auto simp: entry_live_def split: option.splits)

lemma cache_get_miss_later:
  assumes "\<not> truthy (cache_get E now c k)" and "now \<le> now'"
  shows "\<not> truthy (cache_get E now' c k)"
proof (cases "c k")
  case None
  then show ?thesis by (simp add: cache_get_def)
next
  case (Some e)
  show ?thesis
  proof (cases "entry_live E now' k e")
    case True
    then have "entry_live E now k e"
      using assms(2) by (rule entry_live_earlier)
    with assms(1) Some True show ?thesis
      by (simp add: cache_get_def)
  next
    case False
    with Some show ?thesis by (simp add: cache_get_def)
  qed
qed

lemma makeRequest_paid_busy:
  assumes "apiTier st = Some Paid" and "cache st = Map.empty"
  shows "makeRequest (stub_env (\<lambda>n. Rejected (HttpError (Some 429) ''Too Many Requests''))) now
      ''/public/topic/bitcoin/v1'' [] st =
     (Inr (mock_envelope (stub_env (\<lambda>n. Rejected (HttpError (Some 429) ''Too Many Requests'')))
             ''/public/topic/bitcoin/v1'' []),
      http_logged (baseUrl @ ''/public/topic/bitcoin/v1'') [] st)"
proof -
  let ?E = "stub_env (\<lambda>n. Rejected (HttpError (Some 429) ''Too Many Requests''))"
  let ?ep = "''/public/topic/bitcoin/v1''"
  from assms have k: "ensureTier ?E now st = st"
    by (simp add: ensureTier_known)
  from assms have m: "\<not> truthy (cache_get ?E now (cache st) (cacheKey ?E ?ep []))"
    by (simp add: cache_get_def)
  from assms have g: "fst (canAccessEndpoint ?E now ?ep st)"
    by (simp add: canAccessEndpoint_def Let_def k)
  have r: "http_response ?E (baseUrl @ ?ep) [] st =
      Rejected (HttpError (Some 429) ''Too Many Requests'')"
    by (simp add: http_response_def stub_env_def)
  show ?thesis
    by (simp add: makeRequest_granted [OF m g] k r getFallbackData_leaf)
qed

text \<open>
  C5, as stated, fails in two places. Two consecutive identical requests can each reach the
  transport: when the first is answered with mock data after a 429, nothing is cached and
  the second issues its own GET. And a cached value that is falsy (here the empty string,
  stored 500 ms before and still in the cache) is not returned: the pipeline goes on to the
  network.
\<close>

theorem makeRequest_cache_counterexample:
  "length (calls (snd (makeRequest
      (stub_env (\<lambda>n. Rejected (HttpError (Some 429) ''Too Many Requests''))) 3000
      ''/public/topic/bitcoin/v1'' []
      (snd (makeRequest
         (stub_env (\<lambda>n. Rejected (HttpError (Some 429) ''Too Many Requests''))) 2000
         ''/public/topic/bitcoin/v1'' [] (detected_adapter Paid)))))) = 2 \<and>
   cache_get (stub_env (\<lambda>n. Resolved 200 (JStr ''fresh''))) 2000
      [''/public/topic/bitcoin/v1_{}'' \<mapsto> \<lparr>entry_value = JStr [], entry_stored = 1500\<rparr>]
      ''/public/topic/bitcoin/v1_{}'' = JStr [] \<and>
   fst (makeRequest (stub_env (\<lambda>n. Resolved 200 (JStr ''fresh''))) 2000
      ''/public/topic/bitcoin/v1'' []
      ((detected_adapter Paid)\<lparr>cache :=
         [''/public/topic/bitcoin/v1_{}'' \<mapsto> \<lparr>entry_value = JStr [], entry_stored = 1500\<rparr>]\<rparr>)) =
     Inr (JStr ''fresh'')"
proof -
  let ?st = "detected_adapter Paid"
  let ?ep = "''/public/topic/bitcoin/v1''"
  let ?st1 = "http_logged (baseUrl @ ?ep) [] ?st"
  have 1: "apiTier ?st = Some Paid" "cache ?st = Map.empty"
    by (simp_all add: detected_adapter_def)
  have 2: "apiTier ?st1 = Some Paid" "cache ?st1 = Map.empty"
    by (simp_all add: http_logged_fields detected_adapter_def)
  have a: "length (calls (snd (makeRequest
      (stub_env (\<lambda>n. Rejected (HttpError (Some 429) ''Too Many Requests''))) 3000 ?ep []
      (snd (makeRequest
         (stub_env (\<lambda>n. Rejected (HttpError (Some 429) ''Too Many Requests''))) 2000
         ?ep [] ?st))))) = 2"
    by (simp add: makeRequest_paid_busy [OF 1] makeRequest_paid_busy [OF 2] http_logged_fields)
       (simp add: detected_adapter_def)
  let ?E = "stub_env (\<lambda>n. Resolved 200 (JStr ''fresh''))"
  let ?c = "[''/public/topic/bitcoin/v1_{}'' \<mapsto> \<lparr>entry_value = JStr [], entry_stored = 1500\<rparr>]"
  let ?sc = "?st\<lparr>cache := ?c\<rparr>"
  have k: "ensureTier ?E 2000 ?sc = ?sc"
    by (simp add: ensureTier_def detected_adapter_def)
  have key: "cacheKey ?E ?ep [] = ''/public/topic/bitcoin/v1_{}''"
    by (simp add: cacheKey_def stub_env_def stub_stringify_def)
  have v: "cache_get ?E 2000 ?c ''/public/topic/bitcoin/v1_{}'' = JStr []"
    by (simp add: cache_get_def entry_live_def stub_env_def)
  have m: "\<not> truthy (cache_get ?E 2000 (cache ?sc) (cacheKey ?E ?ep []))"
    by (simp add: key v)
  have g: "fst (canAccessEndpoint ?E 2000 ?ep ?sc)"
    by (simp add: canAccessEndpoint_def Let_def k) (simp add: detected_adapter_def)
  have r: "http_response ?E (baseUrl @ ?ep) [] ?sc = Resolved 200 (JStr ''fresh'')"
    by (simp add: http_response_def stub_env_def)
  have b: "fst (makeRequest ?E 2000 ?ep [] ?sc) = Inr (JStr ''fresh'')"
    by (simp add: makeRequest_granted [OF m g] k r)
  from a v b show ?thesis by (simp only: simp_thms)
qed

text \<open>
  C5, amended. The cache key is the path, an underscore and the serialised parameters.
  Whenever the cache gives a truthy value for that key the pipeline returns it at once,
  leaving the state as it was: no tier check, no GET. Consequently, when a request misses
  the cache, is granted access and its GET resolves with a truthy body, that body is
  returned and stored under the key, the transport having carried the one GET for the
  endpoint, preceded by the tier probe only if no tier was known. The next identical
  request is then served from the cache with no new GET provided the entry is still there:
  within the time-to-live of its storing and not evicted. Once the time-to-live has passed
  or the entry is evicted, the cache no longer gives the value and the next identical
  request misses it.
\<close>

theorem makeRequest_cache_short_circuit:
  "cacheKey E endpoint ps = endpoint @ ''_'' @ JSON_stringify E ps \<and>
   (truthy (cache_get E now (cache st) (cacheKey E endpoint ps)) \<longrightarrow>
      makeRequest E now endpoint ps st =
        (Inr (cache_get E now (cache st) (cacheKey E endpoint ps)), st)) \<and>
   (\<not> truthy (cache_get E now (cache st) (cacheKey E endpoint ps)) \<and>
    fst (canAccessEndpoint E now endpoint st) \<and>
    http_response E (baseUrl @ endpoint) ps (ensureTier E now st) = Resolved s d \<and>
    truthy d \<and>
    st' = snd (makeRequest E now endpoint ps st) \<longrightarrow>
      makeRequest E now endpoint ps st = (Inr d, st') \<and>
      cache st' (cacheKey E endpoint ps) = Some \<lparr>entry_value = d, entry_stored = now\<rparr> \<and>
      calls st' = calls (ensureTier E now st) @ [(baseUrl @ endpoint, authorization st, ps)] \<and>
      (apiTier st \<noteq> None \<longrightarrow>
         calls st' = calls st @ [(baseUrl @ endpoint, authorization st, ps)]) \<and>
      (now' - now \<le> cache_ttl E \<and>
       (case cache_evicts E (cacheKey E endpoint ps) now of None \<Rightarrow> True | Some t \<Rightarrow> now' < t) \<longrightarrow>
         makeRequest E now' endpoint ps st' = (Inr d, st')) \<and>
      (cache_ttl E < now' - now \<or>
       (case cache_evicts E (cacheKey E endpoint ps) now of None \<Rightarrow> False | Some t \<Rightarrow> t \<le> now') \<longrightarrow>
         cache_get E now' (cache st') (cacheKey E endpoint ps) = JUndefined))"
proof -
  have a: "cacheKey E endpoint ps = endpoint @ ''_'' @ JSON_stringify E ps"
    by (simp add: cacheKey_def)
  have b: "truthy (cache_get E now (cache st) (cacheKey E endpoint ps)) \<longrightarrow>
      makeRequest E now endpoint ps st =
        (Inr (cache_get E now (cache st) (cacheKey E endpoint ps)), st)"
    by (simp add: makeRequest_hit)
  have c: "makeRequest E now endpoint ps st = (Inr d, st') \<and>
      cache st' (cacheKey E endpoint ps) = Some \<lparr>entry_value = d, entry_stored = now\<rparr> \<and>
      calls st' = calls (ensureTier E now st) @ [(baseUrl @ endpoint, authorization st, ps)] \<and>
      (apiTier st \<noteq> None \<longrightarrow>
         calls st' = calls st @ [(baseUrl @ endpoint, authorization st, ps)]) \<and>
      (now' - now \<le> cache_ttl E \<and>
       (case cache_evicts E (cacheKey E endpoint ps) now of None \<Rightarrow> True | Some t \<Rightarrow> now' < t) \<longrightarrow>
         makeRequest E now' endpoint ps st' = (Inr d, st')) \<and>
      (cache_ttl E < now' - now \<or>
       (case cache_evicts E (cacheKey E endpoint ps) now of None \<Rightarrow> False | Some t \<Rightarrow> t \<le> now') \<longrightarrow>
         cache_get E now' (cache st') (cacheKey E endpoint ps) = JUndefined)"
    if miss: "\<not> truthy (cache_get E now (cache st) (cacheKey E endpoint ps))"
      and granted: "fst (canAccessEndpoint E now endpoint st)"
      and res: "http_response E (baseUrl @ endpoint) ps (ensureTier E now st) = Resolved s d"
      and d: "truthy d"
      and st': "st' = snd (makeRequest E now endpoint ps st)"
  proof -
    let ?key = "cacheKey E endpoint ps"
    let ?e = "\<lparr>entry_value = d, entry_stored = now\<rparr>"
    have 1: "makeRequest E now endpoint ps st =
        (Inr d, (http_logged (baseUrl @ endpoint) ps (ensureTier E now st))
                  \<lparr>cache := cache_set now (cache st) ?key d\<rparr>)"
      by (simp add: makeRequest_granted [OF miss granted] res)
    then have 2: "st' = (http_logged (baseUrl @ endpoint) ps (ensureTier E now st))
                  \<lparr>cache := cache_set now (cache st) ?key d\<rparr>"
      by (simp add: st')
    have 3: "cache st' ?key = Some ?e"
      by (simp add: 2 cache_set_def)
    have 4: "makeRequest E now' endpoint ps st' = (Inr d, st')"
      if live: "now' - now \<le> cache_ttl E \<and>
        (case cache_evicts E ?key now of None \<Rightarrow> True | Some t \<Rightarrow> now' < t)"
    proof -
      from live have "entry_live E now' ?key ?e"
        by (simp add: entry_live_def)
      then have "cache_get E now' (cache st') ?key = d"
        by (simp add: cache_get_def 3)
      with makeRequest_hit [of E now' st' endpoint ps] d show ?thesis
        by simp
    qed
    have 5: "calls st' =
        calls (ensureTier E now st) @ [(baseUrl @ endpoint, authorization st, ps)]"
      by (simp add: 2 http_logged_fields authorization_ensureTier)
    have 6: "cache_get E now' (cache st') ?key = JUndefined"
      if dead: "cache_ttl E < now' - now \<or>
        (case cache_evicts E ?key now of None \<Rightarrow> False | Some t \<Rightarrow> t \<le> now')"
    proof -
      from dead have "\<not> entry_live E now' ?key ?e"
        by (auto simp: entry_live_def split: option.splits)
      then show ?thesis
        by (simp add: cache_get_def 3)
    qed
    have 7: "apiTier st \<noteq> None \<longrightarrow>
         calls st' = calls st @ [(baseUrl @ endpoint, authorization st, ps)]"
      using 5 by (auto simp: ensureTier_known)
    from 1 2 have 8: "makeRequest E now endpoint ps st = (Inr d, st')" by simp
    from 8 3 5 7 4 6 show ?thesis by blast
  qed
  from a b c show ?thesis by blast
qed

theorem makeRequest_cache_short_circuit_witness:
  "makeRequest (stub_env (\<lambda>n. Resolved 200 (JStr ''fresh''))) 3000
      ''/public/topic/bitcoin/v1'' []
      ((detected_adapter Paid)\<lparr>cache :=
         [''/public/topic/bitcoin/v1_{}'' \<mapsto> \<lparr>entry_value = JStr ''old'', entry_stored = 1500\<rparr>]\<rparr>) =
     (Inr (JStr ''old''),
      (detected_adapter Paid)\<lparr>cache :=
         [''/public/topic/bitcoin/v1_{}'' \<mapsto> \<lparr>entry_value = JStr ''old'', entry_stored = 1500\<rparr>]\<rparr>) \<and>
   calls (snd (makeRequest (stub_env (\<lambda>n. Resolved 200 (JStr ''fresh''))) 2000
      ''/public/topic/bitcoin/v1'' [] (detected_adapter Paid))) =
     [(baseUrl @ ''/public/topic/bitcoin/v1'', ''Bearer key'', [])] \<and>
   makeRequest (stub_env (\<lambda>n. Resolved 200 (JStr ''fresh''))) 3000
      ''/public/topic/bitcoin/v1'' []
      (snd (makeRequest (stub_env (\<lambda>n. Resolved 200 (JStr ''fresh''))) 2000
         ''/public/topic/bitcoin/v1'' [] (detected_adapter Paid))) =
     (Inr (JStr ''fresh''),
      snd (makeRequest (stub_env (\<lambda>n. Resolved 200 (JStr ''fresh''))) 2000
         ''/public/topic/bitcoin/v1'' [] (detected_adapter Paid))) \<and>
   cache_get (stub_env (\<lambda>n. Resolved 200 (JStr ''fresh''))) 400000
      (cache (snd (makeRequest (stub_env (\<lambda>n. Resolved 200 (JStr ''fresh''))) 2000
         ''/public/topic/bitcoin/v1'' [] (detected_adapter Paid))))
      (cacheKey (stub_env (\<lambda>n. Resolved 200 (JStr ''fresh''))) ''/public/topic/bitcoin/v1'' []) =
     JUndefined"
proof -
  let ?E = "stub_env (\<lambda>n. Resolved 200 (JStr ''fresh''))"
  let ?ep = "''/public/topic/bitcoin/v1''"
  let ?st = "detected_adapter Paid"
  let ?c = "[''/public/topic/bitcoin/v1_{}'' \<mapsto> \<lparr>entry_value = JStr ''old'', entry_stored = 1500\<rparr>]"
  let ?sc = "?st\<lparr>cache := ?c\<rparr>"
  let ?st' = "snd (makeRequest ?E 2000 ?ep [] ?st)"
  have key: "cacheKey ?E ?ep [] = ''/public/topic/bitcoin/v1_{}''"
    by (simp add: cacheKey_def stub_env_def stub_stringify_def)
  have v: "cache_get ?E 3000 (cache ?sc) (cacheKey ?E ?ep []) = JStr ''old''"
    by (simp add: key cache_get_def entry_live_def) (simp add: stub_env_def)
  have hit: "truthy (cache_get ?E 3000 (cache ?sc) (cacheKey ?E ?ep []))"
    unfolding v by simp
  have a: "makeRequest ?E 3000 ?ep [] ?sc = (Inr (JStr ''old''), ?sc)"
    using makeRequest_cache_short_circuit [of ?E ?ep "[]" 3000 ?sc "200" "JStr ''fresh''" ?sc 3000,
        THEN conjunct2, THEN conjunct1, THEN mp, OF hit]
    by (simp only: v)
  have k: "ensureTier ?E 2000 ?st = ?st"
    by (simp add: ensureTier_def detected_adapter_def)
  have h: "\<not> truthy (cache_get ?E 2000 (cache ?st) (cacheKey ?E ?ep [])) \<and>
      fst (canAccessEndpoint ?E 2000 ?ep ?st) \<and>
      http_response ?E (baseUrl @ ?ep) [] (ensureTier ?E 2000 ?st) = Resolved 200 (JStr ''fresh'') \<and>
      truthy (JStr ''fresh'') \<and> ?st' = snd (makeRequest ?E 2000 ?ep [] ?st)"
    by (simp add: k canAccessEndpoint_def Let_def http_response_def)
       (simp add: detected_adapter_def cache_get_def stub_env_def)
  have live: "(3000::int) - 2000 \<le> cache_ttl ?E \<and>
      (case cache_evicts ?E (cacheKey ?E ?ep []) 2000 of None \<Rightarrow> True | Some t \<Rightarrow> 3000 < t)"
    by (simp add: stub_env_def)
  have dead: "cache_ttl ?E < (400000::int) - 2000 \<or>
      (case cache_evicts ?E (cacheKey ?E ?ep []) 2000 of None \<Rightarrow> False | Some t \<Rightarrow> t \<le> 400000)"
    by (simp add: stub_env_def)
  note t = makeRequest_cache_short_circuit [of ?E ?ep "[]" 2000 ?st "200" "JStr ''fresh''" ?st' 3000,
        THEN conjunct2, THEN conjunct2, THEN mp, OF h]
  note u = makeRequest_cache_short_circuit [of ?E ?ep "[]" 2000 ?st "200" "JStr ''fresh''" ?st' 400000,
        THEN conjunct2, THEN conjunct2, THEN mp, OF h]
  have b: "calls ?st' = [(baseUrl @ ?ep, ''Bearer key'', [])]"
    using t [THEN conjunct2, THEN conjunct2, THEN conjunct1]
    by (simp add: k) (simp add: detected_adapter_def authorization_def)
  have c: "makeRequest ?E 3000 ?ep [] ?st' = (Inr (JStr ''fresh''), ?st')"
    by (rule t [THEN conjunct2, THEN conjunct2, THEN conjunct2, THEN conjunct2, THEN conjunct1,
          THEN mp, OF live])
  have e: "cache_get ?E 400000 (cache ?st') (cacheKey ?E ?ep []) = JUndefined"
    by (rule u [THEN conjunct2, THEN conjunct2, THEN conjunct2, THEN conjunct2, THEN conjunct2,
          THEN mp, OF dead])
  from a b c e show ?thesis by (simp only: simp_thms)
qed

lemma ensureTier_calls_length: "length (calls st) \<le> length (calls (ensureTier E now st))"
  using ensureTier_calls [of E now st] by auto

lemma stored_response_mono:
  assumes "stored_response E now s r s'" and "length (calls st) \<le> length (calls s)"
    and "cache s = cache st"
  shows "stored_response E now st r s'"
proof -
  from assms(1) obtain n path q a sc d where
    *: "length (calls s) \<le> n" "n < length (calls s')" "calls s' ! n = (baseUrl @ path, a, q)"
      "axios_get E n (baseUrl @ path) a q = Resolved sc d"
      "cache s' = cache_set now (cache s) (cacheKey E path q) d" "r = Inr d"
    unfolding stored_response_def by blast
  from *(1) assms(2) have "length (calls st) \<le> n" by simp
  moreover from *(5) assms(3) have "cache s' = cache_set now (cache st) (cacheKey E path q) d"
    by simp
  ultimately show ?thesis
    unfolding stored_response_def using *(2,3,4,6) by blast
qed

lemma stored_response_resolved:
  assumes "http_response E (baseUrl @ endpoint) ps s1 = Resolved s d"
    and "length (calls st) \<le> length (calls s1)"
  shows "stored_response E now st (Inr d)
     ((http_logged (baseUrl @ endpoint) ps s1)
        \<lparr>cache := cache_set now (cache st) (cacheKey E endpoint ps) d\<rparr>)"
proof -
  let ?n = "length (calls s1)"
  let ?s' = "(http_logged (baseUrl @ endpoint) ps s1)
        \<lparr>cache := cache_set now (cache st) (cacheKey E endpoint ps) d\<rparr>"
  have 1: "calls ?s' ! ?n = (baseUrl @ endpoint, authorization s1, ps)"
    by (simp add: http_logged_fields)
  have 2: "?n < length (calls ?s')"
    by (simp add: http_logged_fields)
  have 3: "axios_get E ?n (baseUrl @ endpoint) (authorization s1) ps = Resolved s d"
    using assms(1) by (simp add: http_response_def)
  have 4: "cache ?s' = cache_set now (cache st) (cacheKey E endpoint ps) d"
    by simp
  have "length (calls st) \<le> ?n \<and> ?n < length (calls ?s') \<and>
      calls ?s' ! ?n = (baseUrl @ endpoint, authorization s1, ps) \<and>
      axios_get E ?n (baseUrl @ endpoint) (authorization s1) ps = Resolved s d \<and>
      cache ?s' = cache_set now (cache st) (cacheKey E endpoint ps) d \<and>
      (Inr d :: error + json) = Inr d"
    using assms(2) 1 2 3 4 by (simp only: simp_thms)
  then show ?thesis
    unfolding stored_response_def by (intro exI)
qed

lemma makeRequest_leaf_cache:
  assumes "\<not> str_includes endpoint ''/coins/list/v2''"
  shows "cache (snd (makeRequest E now endpoint ps st)) = cache st \<or>
     stored_response E now st (fst (makeRequest E now endpoint ps st))
       (snd (makeRequest E now endpoint ps st))"
proof (cases "truthy (cache_get E now (cache st) (cacheKey E endpoint ps))")
  case True
  then show ?thesis by (simp add: makeRequest_hit)
next
  case miss: False
  show ?thesis
  proof (cases "fst (canAccessEndpoint E now endpoint st)")
    case False
    then show ?thesis
      by (simp add: makeRequest_denied [OF miss] getFallbackData_leaf [OF assms] ensureTier_cache)
  next
    case True
    show ?thesis
    proof (cases "http_response E (baseUrl @ endpoint) ps (ensureTier E now st)")
      case (Resolved s d)
      then show ?thesis
        using stored_response_resolved [OF Resolved ensureTier_calls_length]
        by (simp add: makeRequest_granted [OF miss True])
    next
      case (Rejected err)
      then show ?thesis
        by (simp add: makeRequest_granted [OF miss True] getFallbackData_leaf [OF assms]
            http_logged_fields ensureTier_cache)
    qed
  qed
qed

lemma getFallbackData_cache:
  "cache (snd (getFallbackData E now endpoint ps st)) = cache st \<or>
   stored_response E now st (fst (getFallbackData E now endpoint ps st))
     (snd (getFallbackData E now endpoint ps st))"
proof (cases "str_includes endpoint ''/coins/list/v2''")
  case False
  then show ?thesis by (simp add: getFallbackData_leaf)
next
  case True
  obtain r1 s1 where m: "makeRequest E now ''/public/coins/list/v1'' ps st = (r1, s1)"
    by (cases "makeRequest E now ''/public/coins/list/v1'' ps st")
  from makeRequest_leaf_cache [OF free_variant_is_leaf, of E now ps st] m
  have *: "cache s1 = cache st \<or> stored_response E now st r1 s1" by simp
  show ?thesis
  proof (cases r1)
    case (Inl e)
    with * have "cache s1 = cache st"
      by (auto simp: stored_response_def)
    with Inl m True show ?thesis
      by (simp add: getFallbackData_variant)
  next
    case (Inr v)
    with * m True show ?thesis
      by (simp add: getFallbackData_variant)
  qed
qed

lemma getFallbackData_cache_from:
  assumes "length (calls st) \<le> length (calls s)" and "cache s = cache st"
  shows "cache (snd (getFallbackData E now endpoint ps s)) = cache st \<or>
     stored_response E now st (fst (getFallbackData E now endpoint ps s))
       (snd (getFallbackData E now endpoint ps s))"
proof (cases "cache (snd (getFallbackData E now endpoint ps s)) = cache s")
  case True
  with assms(2) show ?thesis by simp
next
  case False
  with getFallbackData_cache [of E now endpoint ps s]
  have "stored_response E now s (fst (getFallbackData E now endpoint ps s))
       (snd (getFallbackData E now endpoint ps s))"
    by blast
  from stored_response_mono [OF this assms] show ?thesis ..
qed

lemma makeRequest_cache:
  "cache (snd (makeRequest E now endpoint ps st)) = cache st \<or>
   stored_response E now st (fst (makeRequest E now endpoint ps st))
     (snd (makeRequest E now endpoint ps st))"
proof (cases "truthy (cache_get E now (cache st) (cacheKey E endpoint ps))")
  case True
  then show ?thesis by (simp add: makeRequest_hit)
next
  case miss: False
  show ?thesis
  proof (cases "fst (canAccessEndpoint E now endpoint st)")
    case False
    show ?thesis
      unfolding makeRequest_denied [OF miss False]
      by (rule getFallbackData_cache_from [OF ensureTier_calls_length ensureTier_cache])
  next
    case True
    let ?s1 = "ensureTier E now st"
    let ?s2 = "http_logged (baseUrl @ endpoint) ps ?s1"
    show ?thesis
    proof (cases "http_response E (baseUrl @ endpoint) ps ?s1")
      case (Resolved s d)
      then show ?thesis
        using stored_response_resolved [OF Resolved ensureTier_calls_length]
        by (simp add: makeRequest_granted [OF miss True])
    next
      case (Rejected err)
      have c2: "cache ?s2 = cache st"
        by (simp add: http_logged_fields ensureTier_cache)
      have l2: "length (calls st) \<le> length (calls ?s2)"
        using ensureTier_calls_length [of st E now] by (simp add: http_logged_fields)
      show ?thesis
      proof (cases "status err = Some 402 \<or> status err = Some 429")
        case True
        have "makeRequest E now endpoint ps st = getFallbackData E now endpoint ps ?s2"
          using Rejected True by (simp add: makeRequest_granted [OF miss \<open>fst (canAccessEndpoint E now endpoint st)\<close>])
        then show ?thesis
          using getFallbackData_cache_from [OF l2 c2] by simp
      next
        case False
        with Rejected show ?thesis
          by (simp add: makeRequest_granted [OF miss True] c2)
      qed
    qed
  qed
qed

text \<open>
  C10, as stated, fails in one clause: the access-denied path can store. On the free tier
  a request for \<open>/public/coins/list/v2\<close> is denied; the fallback asks the pipeline for the
  free variant \<open>/public/coins/list/v1\<close>, whose GET resolves, and its body, the result of this
  fallback, is written to the cache under the free variant's key, where nothing was before.
\<close>

theorem makeRequest_denied_path_counterexample:
  "\<not> fst (canAccessEndpoint (stub_env (\<lambda>n. Resolved 200 (JObj [(''data'', JArr [])]))) 2000
        ''/public/coins/list/v2'' (detected_adapter Free)) \<and>
   fst (makeRequest (stub_env (\<lambda>n. Resolved 200 (JObj [(''data'', JArr [])]))) 2000
        ''/public/coins/list/v2'' [(''limit'', JNum 50)] (detected_adapter Free)) =
     Inr (JObj [(''data'', JArr [])]) \<and>
   cache (detected_adapter Free)
     (cacheKey (stub_env (\<lambda>n. Resolved 200 (JObj [(''data'', JArr [])])))
        ''/public/coins/list/v1'' [(''limit'', JNum 50)]) = None \<and>
   cache (snd (makeRequest (stub_env (\<lambda>n. Resolved 200 (JObj [(''data'', JArr [])]))) 2000
        ''/public/coins/list/v2'' [(''limit'', JNum 50)] (detected_adapter Free)))
     (cacheKey (stub_env (\<lambda>n. Resolved 200 (JObj [(''data'', JArr [])])))
        ''/public/coins/list/v1'' [(''limit'', JNum 50)]) =
     Some \<lparr>entry_value = JObj [(''data'', JArr [])], entry_stored = 2000\<rparr>"
proof -
  let ?body = "JObj [(''data'', JArr [])]"
  let ?E = "stub_env (\<lambda>n. Resolved 200 ?body)"
  let ?st = "detected_adapter Free"
  let ?ps = "[(''limit'', JNum 50)]"
  have k: "ensureTier ?E 2000 ?st = ?st"
    by (simp add: ensureTier_def detected_adapter_def)
  have t: "apiTier ?st = Some Paid \<or> apiTier ?st = Some Free"
    by (simp add: detected_adapter_def)
  have d: "\<not> fst (canAccessEndpoint ?E 2000 ''/public/coins/list/v2'' ?st)"
    unfolding canAccessEndpoint_def Let_def k free_endpoints_match
    by (simp add: detected_adapter_def)
  have m: "\<not> truthy (cache_get ?E 2000 (cache ?st) (cacheKey ?E ''/public/coins/list/v2'' ?ps))"
    by (simp add: detected_adapter_def cache_get_def)
  have m1: "\<not> truthy (cache_get ?E 2000 (cache ?st) (cacheKey ?E ''/public/coins/list/v1'' ?ps))"
    by (simp add: detected_adapter_def cache_get_def)
  have r: "http_response ?E (baseUrl @ ''/public/coins/list/v1'') ?ps ?st = Resolved 200 ?body"
    by (simp add: http_response_def stub_env_def)
  have mr: "makeRequest ?E 2000 ''/public/coins/list/v2'' ?ps ?st =
      (Inr ?body, (http_logged (baseUrl @ ''/public/coins/list/v1'') ?ps ?st)
         \<lparr>cache := cache_set 2000 (cache ?st) (cacheKey ?E ''/public/coins/list/v1'' ?ps) ?body\<rparr>)"
    by (simp add: makeRequest_denied [OF m d] k getFallbackData_variant
        makeRequest_free_variant_granted [OF t] m1 r)
  have a: "fst (makeRequest ?E 2000 ''/public/coins/list/v2'' ?ps ?st) = Inr ?body"
    by (simp add: mr)
  have b: "cache ?st (cacheKey ?E ''/public/coins/list/v1'' ?ps) = None"
    by (simp add: detected_adapter_def)
  have c: "cache (snd (makeRequest ?E 2000 ''/public/coins/list/v2'' ?ps ?st))
      (cacheKey ?E ''/public/coins/list/v1'' ?ps) =
      Some \<lparr>entry_value = ?body, entry_stored = 2000\<rparr>"
    by (simp add: mr cache_set_def)
  from d a b c show ?thesis by (simp only: simp_thms)
qed

text \<open>
  C10, amended. Only the bodies of successful responses are ever written to the cache.
  Whatever the request, either it leaves the cache as it was, or the one value it stored
  is the body of a GET that resolved during this request, set under the key of that GET's
  path and parameters, and that body is what the request returned; the mock envelope is
  never stored. The free variant the fallback asks for goes through the same pipeline, so
  its successful body is stored too, also when the original request had been denied
  access. In an environment whose responses do not carry the mock marker, a request
  answered with a value marked \<open>using_mock_data\<close> leaves the cache unchanged; and if it had
  missed the cache, its key still misses at any later time, so the next identical request
  passes the cache check again.
\<close>

theorem makeRequest_caches_only_responses:
  "(cache (snd (makeRequest E now endpoint ps st)) = cache st \<or>
    stored_response E now st (fst (makeRequest E now endpoint ps st))
      (snd (makeRequest E now endpoint ps st))) \<and>
   ((\<forall>n url a q s d. axios_get E n url a q = Resolved s d \<longrightarrow> \<not> meta_using_mock_data d) \<and>
    fst (makeRequest E now endpoint ps st) = Inr r \<and> meta_using_mock_data r \<longrightarrow>
      cache (snd (makeRequest E now endpoint ps st)) = cache st \<and>
      (\<not> truthy (cache_get E now (cache st) (cacheKey E endpoint ps)) \<and> now \<le> now' \<longrightarrow>
         \<not> truthy (cache_get E now' (cache (snd (makeRequest E now endpoint ps st)))
                     (cacheKey E endpoint ps))))"
proof -
  note a = makeRequest_cache [of E now endpoint ps st]
  have b: "cache (snd (makeRequest E now endpoint ps st)) = cache st"
    if clean: "\<forall>n url a q s d. axios_get E n url a q = Resolved s d \<longrightarrow> \<not> meta_using_mock_data d"
      and r: "fst (makeRequest E now endpoint ps st) = Inr r"
      and mock: "meta_using_mock_data r"
  proof (rule ccontr)
    assume "cache (snd (makeRequest E now endpoint ps st)) \<noteq> cache st"
    with a have "stored_response E now st (Inr r) (snd (makeRequest E now endpoint ps st))"
      by (simp add: r)
    then obtain n url a q s where "axios_get E n url a q = Resolved s r"
      unfolding stored_response_def by auto
    with clean mock show False by blast
  qed
  have c: "(\<forall>n url a q s d. axios_get E n url a q = Resolved s d \<longrightarrow> \<not> meta_using_mock_data d) \<and>
    fst (makeRequest E now endpoint ps st) = Inr r \<and> meta_using_mock_data r \<longrightarrow>
      cache (snd (makeRequest E now endpoint ps st)) = cache st \<and>
      (\<not> truthy (cache_get E now (cache st) (cacheKey E endpoint ps)) \<and> now \<le> now' \<longrightarrow>
         \<not> truthy (cache_get E now' (cache (snd (makeRequest E now endpoint ps st)))
                     (cacheKey E endpoint ps)))"
  proof (intro impI, elim conjE)
    assume h: "\<forall>n url a q s d. axios_get E n url a q = Resolved s d \<longrightarrow> \<not> meta_using_mock_data d"
      "fst (makeRequest E now endpoint ps st) = Inr r" "meta_using_mock_data r"
    have e: "cache (snd (makeRequest E now endpoint ps st)) = cache st"
      by (rule b [OF h])
    show "cache (snd (makeRequest E now endpoint ps st)) = cache st \<and>
      (\<not> truthy (cache_get E now (cache st) (cacheKey E endpoint ps)) \<and> now \<le> now' \<longrightarrow>
         \<not> truthy (cache_get E now' (cache (snd (makeRequest E now endpoint ps st)))
                     (cacheKey E endpoint ps)))"
      unfolding e using cache_get_miss_later [of E now "cache st" "cacheKey E endpoint ps" now']
      by blast
  qed
  from a c show ?thesis by (rule conjI)
qed

theorem makeRequest_caches_only_responses_witness:
  "cache (snd (makeRequest (stub_env (\<lambda>n. Rejected (HttpError (Some 429) ''Too Many Requests'')))
      2000 ''/public/topic/bitcoin/v1'' [] (detected_adapter Paid))) = Map.empty \<and>
   meta_using_mock_data (mock_envelope
      (stub_env (\<lambda>n. Rejected (HttpError (Some 429) ''Too Many Requests'')))
      ''/public/topic/bitcoin/v1'' []) \<and>
   \<not> truthy (cache_get (stub_env (\<lambda>n. Rejected (HttpError (Some 429) ''Too Many Requests''))) 3000
      (cache (snd (makeRequest
         (stub_env (\<lambda>n. Rejected (HttpError (Some 429) ''Too Many Requests'')))
         2000 ''/public/topic/bitcoin/v1'' [] (detected_adapter Paid))))
      (cacheKey (stub_env (\<lambda>n. Rejected (HttpError (Some 429) ''Too Many Requests'')))
         ''/public/topic/bitcoin/v1'' []))"
proof -
  let ?E = "stub_env (\<lambda>n. Rejected (HttpError (Some 429) ''Too Many Requests''))"
  let ?ep = "''/public/topic/bitcoin/v1''"
  let ?st = "detected_adapter Paid"
  have 1: "apiTier ?st = Some Paid" "cache ?st = Map.empty"
    by (simp_all add: detected_adapter_def)
  have m: "meta_using_mock_data (mock_envelope ?E ?ep [])"
    by (simp add: meta_using_mock_data_def mock_envelope_def get_prop_def)
  have h: "(\<forall>n url a q s d. axios_get ?E n url a q = Resolved s d \<longrightarrow> \<not> meta_using_mock_data d) \<and>
      fst (makeRequest ?E 2000 ?ep [] ?st) = Inr (mock_envelope ?E ?ep []) \<and>
      meta_using_mock_data (mock_envelope ?E ?ep [])"
    using m by (simp add: makeRequest_paid_busy [OF 1]) (simp add: stub_env_def)
  have miss: "\<not> truthy (cache_get ?E 2000 (cache ?st) (cacheKey ?E ?ep [])) \<and> (2000::int) \<le> 3000"
    by (simp add: 1 cache_get_def)
  note t = makeRequest_caches_only_responses [of ?E 2000 ?ep "[]" ?st "mock_envelope ?E ?ep []" 3000,
          THEN conjunct2, THEN mp, OF h]
  have "cache (snd (makeRequest ?E 2000 ?ep [] ?st)) = cache ?st"
    by (rule t [THEN conjunct1])
  with 1 have a: "cache (snd (makeRequest ?E 2000 ?ep [] ?st)) = Map.empty" by simp
  have b: "\<not> truthy (cache_get ?E 3000 (cache (snd (makeRequest ?E 2000 ?ep [] ?st)))
      (cacheKey ?E ?ep []))"
    by (rule t [THEN conjunct2, THEN mp, OF miss])
  from a m b show ?thesis by (simp only: simp_thms)
qed

section \<open>Properties of the public operations\<close>

text \<open>
  C9. For every topic and any two values of \<open>days\<close>, \<open>getTopicSentiment\<close> is the same
  computation: the request for the per-topic path with an empty parameter object, followed
  by reading \<open>data\<close>. Result and final state, the log of GETs included, do not depend on
  \<open>days\<close>.
\<close>

theorem getTopicSentiment_ignores_days:
  "getTopicSentiment E now topic days1 st = getTopicSentiment E now topic days2 st \<and>
   getTopicSentiment E now topic days1 st =
     result_data (makeRequest E now (''/public/topic/'' @ topic @ ''/v1'') [] st)"
  by (simp add: getTopicSentiment_def)

theorem getTopicSentiment_ignores_days_witness:
  "getTopicSentiment (stub_env (\<lambda>n. Resolved 200 (JObj [(''data'', JStr ''calm'')]))) 2000
      ''bitcoin'' (JNum 7) (detected_adapter Free) =
   getTopicSentiment (stub_env (\<lambda>n. Resolved 200 (JObj [(''data'', JStr ''calm'')]))) 2000
      ''bitcoin'' (JNum 30) (detected_adapter Free) \<and>
   fst (getTopicSentiment (stub_env (\<lambda>n. Resolved 200 (JObj [(''data'', JStr ''calm'')]))) 2000
      ''bitcoin'' (JNum 30) (detected_adapter Free)) = Inr (JStr ''calm'') \<and>
   calls (snd (getTopicSentiment (stub_env (\<lambda>n. Resolved 200 (JObj [(''data'', JStr ''calm'')])))
      2000 ''bitcoin'' (JNum 30) (detected_adapter Free))) =
     [(baseUrl @ ''/public/topic/bitcoin/v1'', ''Bearer key'', [])]"
proof -
  let ?E = "stub_env (\<lambda>n. Resolved 200 (JObj [(''data'', JStr ''calm'')]))"
  let ?st = "detected_adapter Free"
  let ?ep = "''/public/topic/bitcoin/v1''"
  note t = getTopicSentiment_ignores_days [of ?E 2000 "''bitcoin''" "JNum 7" ?st "JNum 30"]
  note u = getTopicSentiment_ignores_days [of ?E 2000 "''bitcoin''" "JNum 30" ?st "JNum 30"]
  have k: "ensureTier ?E 2000 ?st = ?st"
    by (simp add: ensureTier_def detected_adapter_def)
  have m: "\<not> truthy (cache_get ?E 2000 (cache ?st) (cacheKey ?E ?ep []))"
    by (simp add: detected_adapter_def cache_get_def)
  have "\<exists>topic. topic \<noteq> [] \<and> CHR ''/'' \<notin> set topic \<and> ?ep = ''/public/topic/'' @ topic @ ''/v1''"
    by (rule exI [of _ "''bitcoin''"]) simp
  then have g: "fst (canAccessEndpoint ?E 2000 ?ep ?st)"
    unfolding canAccessEndpoint_def Let_def k free_endpoints_match
    by (simp add: detected_adapter_def)
  have r: "http_response ?E (baseUrl @ ?ep) [] ?st = Resolved 200 (JObj [(''data'', JStr ''calm'')])"
    by (simp add: http_response_def stub_env_def)
  have mr: "makeRequest ?E 2000 (''/public/topic/'' @ ''bitcoin'' @ ''/v1'') [] ?st =
      (Inr (JObj [(''data'', JStr ''calm'')]),
       (http_logged (baseUrl @ ?ep) [] ?st)
         \<lparr>cache := cache_set 2000 (cache ?st) (cacheKey ?E ?ep []) (JObj [(''data'', JStr ''calm'')])\<rparr>)"
    using makeRequest_granted [OF m g] by (simp add: k r)
  have a: "fst (getTopicSentiment ?E 2000 ''bitcoin'' (JNum 30) ?st) = Inr (JStr ''calm'')"
    by (simp only: u [THEN conjunct2] mr) (simp add: result_data_def get_data_def get_prop_def)
  have b: "calls (snd (getTopicSentiment ?E 2000 ''bitcoin'' (JNum 30) ?st)) =
      [(baseUrl @ ?ep, ''Bearer key'', [])]"
    by (simp only: u [THEN conjunct2] mr)
       (simp add: result_data_def get_data_def http_logged_fields detected_adapter_def
          authorization_def)
  from t [THEN conjunct1] a b show ?thesis by (simp only: simp_thms)
qed

lemma some_matches_strings:
  "list_all is_JStr cs \<Longrightarrow>
     some_matches (Some k) cs =
       Inr (list_ex (\<lambda>s. toLowerCase s = toLowerCase k)
              (concat (map (\<lambda>c. case c of JStr s \<Rightarrow> [s] | _ \<Rightarrow> []) cs)))"
  by (induction cs) (auto simp: is_JStr_def split: json.splits)

lemma some_matches_split:
  "some_matches (Some k) (map (\<lambda>c. JStr (trim c)) xs) =
     Inr (list_ex (\<lambda>s. toLowerCase s = toLowerCase k) (map trim xs))"
  by (induction xs) auto

lemma coin_in_category_spec:
  "coin_well_formed coin \<Longrightarrow>
     coin_in_category (Some k) coin = Inr (spec_in_category k coin)"
proof (cases coin)
  case (JObj kvs)
  assume wf: "coin_well_formed coin"
  show ?thesis
  proof (cases "get_prop kvs ''categories''")
    case (JArr cs)
    with wf JObj have "list_all is_JStr cs"
      by (simp add: coin_well_formed_def)
    with JObj JArr show ?thesis
      by (simp add: coin_in_category_def spec_in_category_def spec_category_set_def
          categories_of_def some_matches_strings)
  next
    case (JStr s)
    with JObj show ?thesis
      by (simp add: coin_in_category_def spec_in_category_def spec_category_set_def
          categories_of_def some_matches_split)
  qed (use wf JObj in \<open>simp_all add: coin_well_formed_def coin_in_category_def
        spec_in_category_def\<close>)
qed (simp_all add: coin_well_formed_def)

lemma filter_coins_spec:
  "list_all coin_well_formed coins \<Longrightarrow>
     filter_coins (coin_in_category (Some k)) coins = Inr (filter (spec_in_category k) coins)"
  by (induction coins) (simp_all add: coin_in_category_spec)

lemma category_of_own_name:
  "ecosystem \<notin> set Object_prototype_names \<Longrightarrow>
     category_of ecosystem =
       Some (case map_of categoryMap ecosystem of Some c \<Rightarrow> c | None \<Rightarrow> ecosystem)"
  by (simp add: category_of_def split: option.splits)

text \<open>
  For every ecosystem name that is not inherited from \<open>Object.prototype\<close> the operation
  does what C8 says: the name goes through the alias table, unknown names unchanged; 200
  coins are asked of \<open>getCoinsList\<close>, whose error is passed on; a well-formed list is
  filtered as the specification words it and cut to its first \<open>limit\<close> items.
\<close>

lemma getEcosystemCoins_own_names:
  assumes "ecosystem \<notin> set Object_prototype_names"
  shows "(getCoinsList E now (JNum 200) st = (Inl e, st1) \<longrightarrow>
            getEcosystemCoins E now ecosystem limit st = (Inl e, st1)) \<and>
         (getCoinsList E now (JNum 200) st = (Inr (JArr coins), st1) \<and>
          list_all coin_well_formed coins \<longrightarrow>
            getEcosystemCoins E now ecosystem limit st =
              (Inr (take limit
                      (filter (spec_in_category
                                 (case map_of categoryMap ecosystem of
                                    Some c \<Rightarrow> c | None \<Rightarrow> ecosystem)) coins)), st1))"
  by (simp add: getEcosystemCoins_def category_of_own_name [OF assms] filter_coins_spec)

text \<open>
  C8 does not hold of the code for the ecosystem names that an object literal inherits
  from \<open>Object.prototype\<close>. For \<open>constructor\<close> the lookup \<open>categoryMap[ecosystem]\<close> finds
  the inherited function, the name does not pass through as the category, and as soon as a
  coin with categories is filtered \<open>category.toLowerCase()\<close> throws a TypeError, which the
  operation rethrows. On the same list the name \<open>solana\<close> gives the one matching coin.
\<close>

theorem getEcosystemCoins_inherited_name:
  "fst (getEcosystemCoins
      (stub_env (\<lambda>n. Resolved 200
         (JObj [(''data'', JArr [JObj [(''s'', JStr ''SOL''),
                                       (''categories'', JArr [JStr ''solana''])]])])))
      2000 ''constructor'' 15 (detected_adapter Paid)) = Inl TypeError \<and>
   fst (getEcosystemCoins
      (stub_env (\<lambda>n. Resolved 200
         (JObj [(''data'', JArr [JObj [(''s'', JStr ''SOL''),
                                       (''categories'', JArr [JStr ''solana''])]])])))
      2000 ''solana'' 15 (detected_adapter Paid)) =
     Inr [JObj [(''s'', JStr ''SOL''), (''categories'', JArr [JStr ''solana''])]]"
proof -
  let ?coin = "JObj [(''s'', JStr ''SOL''), (''categories'', JArr [JStr ''solana''])]"
  let ?body = "JObj [(''data'', JArr [?coin])]"
  let ?E = "stub_env (\<lambda>n. Resolved 200 ?body)"
  let ?st = "detected_adapter Paid"
  let ?ep = "''/public/coins/list/v2''"
  let ?ps = "[(''limit'', JNum 200)]"
  have k: "ensureTier ?E 2000 ?st = ?st"
    by (simp add: ensureTier_def detected_adapter_def)
  have m: "\<not> truthy (cache_get ?E 2000 (cache ?st) (cacheKey ?E ?ep ?ps))"
    by (simp add: detected_adapter_def cache_get_def)
  have g: "fst (canAccessEndpoint ?E 2000 ?ep ?st)"
    by (simp add: canAccessEndpoint_def Let_def k) (simp add: detected_adapter_def)
  have r: "http_response ?E (baseUrl @ ?ep) ?ps ?st = Resolved 200 ?body"
    by (simp add: http_response_def stub_env_def)
  have l: "fst (getCoinsList ?E 2000 (JNum 200) ?st) = Inr (JArr [?coin])"
    using makeRequest_granted [OF m g]
    by (simp add: getCoinsList_def or_undefined_def k r result_data_def get_data_def get_prop_def)
  have c1: "category_of ''constructor'' = None"
    by (simp add: category_of_def categoryMap_def Object_prototype_names_def)
  have c2: "category_of ''solana'' = Some ''solana''"
    by (simp add: category_of_def categoryMap_def)
  have f1: "coin_in_category None ?coin = Inl TypeError"
    by (simp add: coin_in_category_def get_prop_def categories_of_def)
  have f2: "coin_in_category (Some ''solana'') ?coin = Inr True"
    by (simp add: coin_in_category_def get_prop_def categories_of_def)
  obtain s1 where p: "getCoinsList ?E 2000 (JNum 200) ?st = (Inr (JArr [?coin]), s1)"
    using l by (cases "getCoinsList ?E 2000 (JNum 200) ?st") simp
  have a: "fst (getEcosystemCoins ?E 2000 ''constructor'' 15 ?st) = Inl TypeError"
    by (simp add: getEcosystemCoins_def c1 p f1)
  have b: "fst (getEcosystemCoins ?E 2000 ''solana'' 15 ?st) = Inr [?coin]"
    by (simp add: getEcosystemCoins_def c2 p f2)
  from a b show ?thesis by (simp only: simp_thms)
qed

end
